theory Spec2Isabelle
  imports Main
begin

section \<open>The window manager: dragging and dropdown menus\<close>

text \<open>
  The module of \<^verbatim>\<open>DesktopWindow\<close> keeps one process-wide object
  \<^verbatim>\<open>DragManager = { currentlyDraggedInstance: null }\<close> and any number of window
  instances. An instance is a JavaScript object, so the registry refers to it by identity:
  the model keeps the instances in a list and a reference is an index into it.

  Pointer coordinates, offsets and the viewport size are whole numbers of pixels
  (\<open>int\<close>). The fields \<^verbatim>\<open>offsetX\<close> and \<^verbatim>\<open>offsetY\<close> are declared
  without a value, so they are \<open>None\<close> (\<^verbatim>\<open>undefined\<close>) until the first
  mouse-down on the title bar. \<^verbatim>\<open>style.left\<close> and \<^verbatim>\<open>style.top\<close> hold
  the text \<^verbatim>\<open>`${n}px`\<close>; the model keeps the number, and \<open>None\<close> while the
  property has never been set.
\<close>

record dropdown =
  content_display :: string
  active :: bool

record window =
  isFocused :: bool
  isDragging :: bool
  maxX :: int
  maxY :: int
  offsetX :: "int option"
  offsetY :: "int option"
  style_left :: "int option"
  style_top :: "int option"
  dropdowns :: "dropdown list"

record desktop =
  instances :: "window list"
  currentlyDraggedInstance :: "nat option"

record mouse_event =
  tagName :: string
  clientX :: int
  clientY :: int
  e_offsetX :: int
  e_offsetY :: int

text \<open>The field initialisers of a new window, for a viewport of the given size.\<close>

definition new_window :: "int \<Rightarrow> int \<Rightarrow> dropdown list \<Rightarrow> window" where
  "new_window innerWidth innerHeight ds =
     \<lparr>isFocused = False, isDragging = False,
      maxX = innerWidth, maxY = innerHeight - 60,
      offsetX = None, offsetY = None,
      style_left = None, style_top = None,
      dropdowns = ds\<rparr>"

text \<open>Applying a change to the instance a reference points to.\<close>

definition update_instance :: "nat \<Rightarrow> (window \<Rightarrow> window) \<Rightarrow> desktop \<Rightarrow> desktop" where
  "update_instance i f d =
     (if i < length (instances d)
      then d\<lparr>instances := (instances d)[i := f (instances d ! i)]\<rparr>
      else d)"

text \<open>
  \<^verbatim>\<open>stopDrag\<close>: resets the flag of the registered instance and clears the registry;
  nothing happens when no instance is registered.
\<close>

definition stopDrag :: "desktop \<Rightarrow> desktop" where
  "stopDrag d =
     (case currentlyDraggedInstance d of
        None \<Rightarrow> d
      | Some i \<Rightarrow>
          (update_instance i (\<lambda>w. w\<lparr>isDragging := False\<rparr>) d)
            \<lparr>currentlyDraggedInstance := None\<rparr>)"

text \<open>
  The position computed by \<^verbatim>\<open>handleMouseMoveForDrag\<close>:
  \<^verbatim>\<open>Math.min(clientX - offsetX, maxX - 1)\<close> and
  \<^verbatim>\<open>Math.min(Math.max(0, clientY - offsetY), maxY)\<close>.
\<close>

definition newX :: "window \<Rightarrow> int \<Rightarrow> int \<Rightarrow> int" where
  "newX w cx ox = min (cx - ox) (maxX w - 1)"

definition newY :: "window \<Rightarrow> int \<Rightarrow> int \<Rightarrow> int" where
  "newY w cy oy = min (max 0 (cy - oy)) (maxY w)"

text \<open>
  With an offset still \<^verbatim>\<open>undefined\<close> the arithmetic gives \<^verbatim>\<open>NaN\<close>, and
  the assignment of \<^verbatim>\<open>"NaNpx"\<close> to a style property is dropped by the browser: that
  coordinate keeps its value.
\<close>

definition move_window :: "mouse_event \<Rightarrow> window \<Rightarrow> window" where
  "move_window e w =
     w\<lparr>style_left := (case offsetX w of
                         None \<Rightarrow> style_left w
                       | Some ox \<Rightarrow> Some (newX w (clientX e) ox)),
       style_top := (case offsetY w of
                        None \<Rightarrow> style_top w
                      | Some oy \<Rightarrow> Some (newY w (clientY e) oy))\<rparr>"

definition handleMouseMoveForDrag :: "mouse_event \<Rightarrow> desktop \<Rightarrow> desktop" where
  "handleMouseMoveForDrag e d =
     (case currentlyDraggedInstance d of
        None \<Rightarrow> d
      | Some i \<Rightarrow>
          if i < length (instances d) \<and> isDragging (instances d ! i)
          then update_instance i (move_window e) d
          else d)"

text \<open>
  \<^verbatim>\<open>handleTitleBarMouseDown\<close> of instance \<open>i\<close>; the viewport size is read from
  \<^verbatim>\<open>window.innerWidth\<close> and \<^verbatim>\<open>window.innerHeight\<close> when the event is handled.
\<close>

definition handleTitleBarMouseDown ::
    "nat \<Rightarrow> int \<Rightarrow> int \<Rightarrow> mouse_event \<Rightarrow> desktop \<Rightarrow> desktop" where
  "handleTitleBarMouseDown i innerWidth innerHeight e d =
     (if tagName e \<noteq> ''BUTTON''
      then (update_instance i
              (\<lambda>w. w\<lparr>isDragging := True,
                      offsetX := Some (e_offsetX e),
                      offsetY := Some (e_offsetY e),
                      maxX := innerWidth,
                      maxY := innerHeight - 60\<rparr>) d)
             \<lparr>currentlyDraggedInstance := Some i\<rparr>
      else d)"

text \<open>A run of pointer moves, in the order the events arrive.\<close>

fun pointer_moves :: "mouse_event list \<Rightarrow> desktop \<Rightarrow> desktop" where
  "pointer_moves [] d = d"
| "pointer_moves (e # es) d = pointer_moves es (handleMouseMoveForDrag e d)"

subsection \<open>Dropdown menus\<close>

text \<open>
  The control panel of a window holds dropdowns, each made of an activator and a content
  element whose children are the choices (the structure documented in
  \<^verbatim>\<open>createControlPanel\<close>). A dropdown is shown when the inline style of its content is
  \<^verbatim>\<open>display: block\<close>; a fresh content element has no inline display (the empty text)
  and the style sheet hides it. The click listener sits on the shadow root, so a click
  anywhere in the window reaches it; what it does depends on the class of the element
  that was hit.
\<close>

datatype click_target =
    Activator nat
  | Choice nat nat
  | Content nat
  | Elsewhere

definition is_open :: "dropdown \<Rightarrow> bool" where
  "is_open dd = (content_display dd = ''block'')"

definition closed :: "dropdown \<Rightarrow> dropdown" where
  "closed dd = dd\<lparr>content_display := ''none'', active := False\<rparr>"

definition closeDropdown :: "nat \<Rightarrow> window \<Rightarrow> window" where
  "closeDropdown i w =
     (if i < length (dropdowns w)
      then w\<lparr>dropdowns := (dropdowns w)[i := closed (dropdowns w ! i)]\<rparr>
      else w)"

text \<open>
  \<^verbatim>\<open>closeAllDropdowns(excludeContent)\<close>: every content element other than the
  excluded one is hidden; \<open>None\<close> is the default \<^verbatim>\<open>null\<close>.
\<close>

fun close_from :: "nat \<Rightarrow> nat option \<Rightarrow> dropdown list \<Rightarrow> dropdown list" where
  "close_from n ex [] = []"
| "close_from n ex (dd # dds) =
     (if ex = Some n then dd else closed dd) # close_from (Suc n) ex dds"

definition closeAllDropdowns :: "nat option \<Rightarrow> window \<Rightarrow> window" where
  "closeAllDropdowns ex w = w\<lparr>dropdowns := close_from 0 ex (dropdowns w)\<rparr>"

definition toggleDropdown :: "nat \<Rightarrow> window \<Rightarrow> window" where
  "toggleDropdown i w =
     (if i < length (dropdowns w)
      then (let isContentVisible = (content_display (dropdowns w ! i) = ''block'');
                w1 = closeAllDropdowns (Some i) w
            in w1\<lparr>dropdowns := (dropdowns w1)
                     [i := (dropdowns w1 ! i)
                        \<lparr>content_display := (if isContentVisible then ''none'' else ''block''),
                         active := \<not> isContentVisible\<rparr>]\<rparr>)
      else w)"

definition handleControlPanelClick :: "click_target \<Rightarrow> window \<Rightarrow> window" where
  "handleControlPanelClick t w =
     (case t of
        Activator i \<Rightarrow> toggleDropdown i w
      | Choice i c \<Rightarrow> closeDropdown i w
      | Content i \<Rightarrow> w
      | Elsewhere \<Rightarrow> closeAllDropdowns None w)"

fun clicks :: "click_target list \<Rightarrow> window \<Rightarrow> window" where
  "clicks [] w = w"
| "clicks (t # ts) w = clicks ts (handleControlPanelClick t w)"

definition open_dropdowns :: "window \<Rightarrow> nat" where
  "open_dropdowns w = length (filter is_open (dropdowns w))"

section \<open>The chat application\<close>

subsection \<open>Data\<close>

text \<open>
  An inbound message is the object \<^verbatim>\<open>JSON.parse\<close> gives for a frame of the wire
  protocol. The code reads its \<^verbatim>\<open>type\<close>, \<^verbatim>\<open>data\<close> and
  \<^verbatim>\<open>username\<close>; any further members (channel, key) are carried along unread.
\<close>

record message =
  msg_type :: string
  msg_data :: string
  msg_username :: string
  msg_rest :: "(string \<times> string) list"

text \<open>
  \<^verbatim>\<open>localStorage\<close> maps keys to text. The application writes two kinds of text: a
  user name as it is, and the \<^verbatim>\<open>JSON.stringify\<close> of a message list. The model
  keeps the serialised list as the list itself, so that \<^verbatim>\<open>JSON.parse\<close> of a text
  that \<^verbatim>\<open>JSON.stringify\<close> wrote gives the list back.
\<close>

datatype jstext = Raw string | Json "message list"

text \<open>JavaScript truthiness of a text or \<^verbatim>\<open>null\<close>: only the empty text is falsy.\<close>

fun truthy :: "jstext option \<Rightarrow> bool" where
  "truthy None = False"
| "truthy (Some (Raw u)) = (u \<noteq> [])"
| "truthy (Some (Json ms)) = True"

datatype readyState = CONNECTING | OPEN | CLOSING | CLOSED

datatype element =
    ServerMessage string
  | UserMessage string string

datatype body = NoContent | UsernameChoiceMenu | ChannelChoiceMenu | Chat string bool

record outbound =
  ob_type :: string
  ob_data :: string
  ob_username :: "jstext option"
  ob_channel :: string
  ob_key :: string

datatype effect =
    ConsoleLog string
  | ConsoleError string
  | WebSocketNew nat
  | WebSocketClose nat
  | WebSocketSend nat outbound
  | ReplaceChildren body
  | ScrollToBottom

datatype error = Error string | TypeError | SyntaxError

text \<open>
  The controller. \<open>sockets\<close> holds the ready state of every \<^verbatim>\<open>WebSocket\<close> the
  controller has created, in creation order, and the field \<open>socket\<close> refers to one of
  them by its index. \<open>messageListElement\<close> is the reference to the render target together
  with the children appended to it. The body content \<open>Chat v d\<close> carries the value
  \<open>v\<close> of the input field and the disabled flag \<open>d\<close> of the send button.
  \<open>effects\<close> records, in order, the calls that reach outside the controller.
\<close>

record chat =
  priv_state :: "string option"
  priv_username :: "jstext option"
  localStorage :: "string \<rightharpoonup> jstext"
  socket :: "nat option"
  sockets :: "readyState list"
  channel :: string
  messages :: "message list"
  messageListElement :: "element list option"
  inputFieldElement :: "unit option"
  changeChannelDisabled :: bool
  body :: body
  effects :: "effect list"

text \<open>A handler either returns or throws; what it changed before throwing stays changed.\<close>

datatype outcome = Done chat | Thrown error chat

fun state_of :: "outcome \<Rightarrow> chat" where
  "state_of (Done s) = s"
| "state_of (Thrown e s) = s"

fun and_then :: "outcome \<Rightarrow> (chat \<Rightarrow> outcome) \<Rightarrow> outcome" where
  "and_then (Done s) f = f s"
| "and_then (Thrown e s) f = Thrown e s"

definition apiKey :: string where
  "apiKey = ''eDBE76deU7L0H9mEBgxUKVR0VCnq0XBd''"

text \<open>The object as the field initialisers leave it, over a given \<^verbatim>\<open>localStorage\<close>.\<close>

definition new_chat :: "(string \<rightharpoonup> jstext) \<Rightarrow> chat" where
  "new_chat ls =
     \<lparr>priv_state = None,
      priv_username = (if truthy (ls ''username'') then ls ''username'' else None),
      localStorage = ls,
      socket = None,
      sockets = [],
      channel = ''default_channel'',
      messages = [],
      messageListElement = None,
      inputFieldElement = None,
      changeChannelDisabled = False,
      body = NoContent,
      effects = []\<rparr>"

subsection \<open>Identity\<close>

text \<open>The getter: \<^verbatim>\<open>this._username || localStorage.getItem('username') || null\<close>.\<close>

definition username :: "chat \<Rightarrow> jstext option" where
  "username s =
     (if truthy (priv_username s) then priv_username s
      else if truthy (localStorage s ''username'') then localStorage s ''username''
      else None)"

text \<open>
  The setter takes \<^verbatim>\<open>null\<close> or an object \<^verbatim>\<open>{ username, rememberMe }\<close>.
\<close>

definition set_username :: "(string \<times> bool) option \<Rightarrow> chat \<Rightarrow> chat" where
  "set_username value s =
     (case value of
        None \<Rightarrow> s\<lparr>priv_username := None,
                  localStorage := (localStorage s)(''username'' := None)\<rparr>
      | Some (u, rememberMe) \<Rightarrow>
          (let s1 = s\<lparr>priv_username := Some (Raw u)\<rparr>
           in if rememberMe
              then s1\<lparr>localStorage := (localStorage s1)(''username'' \<mapsto> Raw u)\<rparr>
              else s1))"

subsection \<open>The connection\<close>

definition emit :: "effect \<Rightarrow> chat \<Rightarrow> chat" where
  "emit x s = s\<lparr>effects := effects s @ [x]\<rparr>"

text \<open>The payloads sent so far, each with the socket it was sent on.\<close>

fun sends :: "effect list \<Rightarrow> (nat \<times> outbound) list" where
  "sends [] = []"
| "sends (WebSocketSend k p # xs) = (k, p) # sends xs"
| "sends (x # xs) = sends xs"

text \<open>
  The ready state of the socket a reference points to. Every reference the controller
  holds was given out by \<open>connect\<close>, so the index is in range.
\<close>

definition ready :: "chat \<Rightarrow> nat \<Rightarrow> readyState" where
  "ready s k = (if k < length (sockets s) then sockets s ! k else CLOSED)"

text \<open>
  \<^verbatim>\<open>socket.close()\<close> on an open socket starts the closing handshake: the ready state
  becomes \<open>CLOSING\<close>, and the \<^verbatim>\<open>close\<close> event follows later.
\<close>

definition closeConnection :: "chat \<Rightarrow> chat" where
  "closeConnection s =
     (case socket s of
        None \<Rightarrow> s
      | Some k \<Rightarrow>
          if ready s k = OPEN
          then (emit (WebSocketClose k) (s\<lparr>sockets := (sockets s)[k := CLOSING]\<rparr>))
                 \<lparr>socket := None\<rparr>
          else s)"

definition connect :: "chat \<Rightarrow> chat" where
  "connect s =
     (let k = length (sockets s)
      in emit (WebSocketNew k) (s\<lparr>sockets := sockets s @ [CONNECTING], socket := Some k\<rparr>))"

subsection \<open>The state machine\<close>

text \<open>
  Assigning to \<^verbatim>\<open>state\<close> runs the setter, which ends in \<^verbatim>\<open>renderBody\<close>;
  \<^verbatim>\<open>renderBody\<close> assigns to \<^verbatim>\<open>state\<close> again when a user name is already
  known. (The two lines that set the width and height of the body are styling and are
  left out.)
\<close>

function set_state :: "string \<Rightarrow> chat \<Rightarrow> outcome"
  and renderBody :: "string \<Rightarrow> chat \<Rightarrow> outcome" where
  "set_state v s =
     renderBody v
       ((closeConnection (s\<lparr>priv_state := Some v\<rparr>))
          \<lparr>messageListElement := None, inputFieldElement := None\<rparr>)"
| "renderBody v s =
     (if v = ''username-choice'' then
        (if truthy (username s)
         then set_state ''channel-choice'' (s\<lparr>changeChannelDisabled := True\<rparr>)
         else Done (emit (ReplaceChildren UsernameChoiceMenu)
                      (s\<lparr>changeChannelDisabled := True, body := UsernameChoiceMenu\<rparr>)))
      else if v = ''channel-choice'' then
        Done (emit (ReplaceChildren ChannelChoiceMenu)
                (s\<lparr>changeChannelDisabled := True, body := ChannelChoiceMenu\<rparr>))
      else if v = ''chat'' then
        Done (connect
                (emit (ReplaceChildren (Chat [] True))
                   (s\<lparr>changeChannelDisabled := False,
                      messageListElement := Some [],
                      body := Chat [] True\<rparr>)))
      else Thrown (Error ''Invalid state'') s)"
  by pat_completeness auto
termination
  by (relation "measure (\<lambda>x. case x of
         Inl (v, s) \<Rightarrow> (if v = ''username-choice'' then 3 else 1)
       | Inr (v, s) \<Rightarrow> (if v = ''username-choice'' then 2 else 0))") auto

definition connectedCallback :: "chat \<Rightarrow> outcome" where
  "connectedCallback s = set_state ''username-choice'' s"

definition disconnectedCallback :: "chat \<Rightarrow> chat" where
  "disconnectedCallback s = closeConnection s"

text \<open>
  A click in the control panel, with the \<^verbatim>\<open>data-action\<close> of the element that was
  hit (\<open>None\<close> when it has none).
\<close>

definition handleClick :: "string option \<Rightarrow> chat \<Rightarrow> outcome" where
  "handleClick action s =
     (if action = Some ''change-username''
      then set_state ''username-choice'' (set_username None s)
      else if action = Some ''change-channel''
      then set_state ''channel-choice'' s
      else Done s)"

subsection \<open>Sending\<close>

definition sendMessage :: "string \<Rightarrow> chat \<Rightarrow> chat" where
  "sendMessage d s =
     (case socket s of
        None \<Rightarrow> emit (ConsoleError ''Cannot send message: WebSocket is not open.'') s
      | Some k \<Rightarrow>
          if ready s k \<noteq> OPEN
          then emit (ConsoleError ''Cannot send message: WebSocket is not open.'') s
          else emit (WebSocketSend k
                       \<lparr>ob_type = ''message'',
                        ob_data = d,
                        ob_username = username s,
                        ob_channel = channel s,
                        ob_key = apiKey\<rparr>) s)"

subsection \<open>Forms\<close>

text \<open>
  A submit event carries the form: its \<^verbatim>\<open>id\<close> and the entries its
  \<^verbatim>\<open>FormData\<close> holds. \<^verbatim>\<open>FormData.get\<close> gives the first value under a name,
  or \<^verbatim>\<open>null\<close>. (\<^verbatim>\<open>event.preventDefault()\<close> acts on the event only.)
\<close>

record form =
  form_id :: string
  entries :: "(string \<times> string) list"

definition formData_get :: "form \<Rightarrow> string \<Rightarrow> string option" where
  "formData_get f name = map_of (entries f) name"

text \<open>Truthiness of a form value: \<^verbatim>\<open>null\<close> and the empty string are falsy.\<close>

fun filled :: "string option \<Rightarrow> bool" where
  "filled None = False"
| "filled (Some u) = (u \<noteq> [])"

definition handleAuthFormSubmit :: "form \<Rightarrow> chat \<Rightarrow> outcome" where
  "handleAuthFormSubmit f s =
     (case formData_get f ''username'' of
        None \<Rightarrow> Done s
      | Some u \<Rightarrow>
          if u \<noteq> []
          then set_state ''channel-choice''
                 (set_username (Some (u, filled (formData_get f ''remember-me''))) s)
          else Done s)"

definition handleChannelChoiceFormSubmit :: "form \<Rightarrow> chat \<Rightarrow> outcome" where
  "handleChannelChoiceFormSubmit f s =
     (case formData_get f ''channel'' of
        None \<Rightarrow> Done s
      | Some c \<Rightarrow>
          if c \<noteq> []
          then set_state ''chat'' (s\<lparr>channel := c\<rparr>)
          else Done s)"

text \<open>
  After sending, the input field is emptied and an \<^verbatim>\<open>input\<close> event is dispatched on
  it, whose listener disables the send button for an empty field.
\<close>

definition clear_input :: "chat \<Rightarrow> chat" where
  "clear_input s = s\<lparr>body := (case body s of Chat v d \<Rightarrow> Chat [] True | b \<Rightarrow> b)\<rparr>"

definition handleMessageFormSubmit :: "form \<Rightarrow> chat \<Rightarrow> outcome" where
  "handleMessageFormSubmit f s =
     (case formData_get f ''message'' of
        None \<Rightarrow> Done s
      | Some m \<Rightarrow>
          if m \<noteq> []
          then Done (clear_input (sendMessage m s))
          else Done s)"

definition handleSubmit :: "form \<Rightarrow> chat \<Rightarrow> outcome" where
  "handleSubmit f s =
     (if form_id f = ''auth-form'' then handleAuthFormSubmit f s
      else if form_id f = ''channel-form'' then handleChannelChoiceFormSubmit f s
      else if form_id f = ''message-form'' then handleMessageFormSubmit f s
      else Thrown (Error ''Unhandled form submission'') s)"

subsection \<open>Rendering and the message log\<close>

text \<open>\<^verbatim>\<open>toLowerCase\<close>, on the letters A to Z.\<close>

definition lower_char :: "char \<Rightarrow> char" where
  "lower_char c =
     (case map_of (zip ''ABCDEFGHIJKLMNOPQRSTUVWXYZ'' ''abcdefghijklmnopqrstuvwxyz'') c of
        None \<Rightarrow> c
      | Some l \<Rightarrow> l)"

definition toLowerCase :: "string \<Rightarrow> string" where
  "toLowerCase u = map lower_char u"

definition createMessageElement :: "message \<Rightarrow> element" where
  "createMessageElement m =
     (if toLowerCase (msg_username m) = ''the server''
      then ServerMessage (msg_data m)
      else UserMessage (msg_username m) (msg_data m))"

text \<open>
  \<^verbatim>\<open>this.messageListElement.appendChild(e)\<close>: a \<^verbatim>\<open>TypeError\<close> when the reference
  is \<^verbatim>\<open>null\<close>.
\<close>

definition appendChild :: "element \<Rightarrow> chat \<Rightarrow> outcome" where
  "appendChild e s =
     (case messageListElement s of
        None \<Rightarrow> Thrown TypeError s
      | Some es \<Rightarrow> Done (s\<lparr>messageListElement := Some (es @ [e])\<rparr>))"

text \<open>The body of the \<^verbatim>\<open>forEach\<close> in \<^verbatim>\<open>handleOpen\<close>, over the stored messages.\<close>

fun replay :: "message list \<Rightarrow> chat \<Rightarrow> outcome" where
  "replay [] s = Done s"
| "replay (m # ms) s =
     and_then (appendChild (createMessageElement m) (s\<lparr>messages := messages s @ [m]\<rparr>))
       (replay ms)"

text \<open>
  \<^verbatim>\<open>JSON.parse(localStorage.getItem(this.channel))\<close> is \<^verbatim>\<open>null\<close> for a missing
  key and the stored list for a serialised log. The key may also hold a text that
  \<^verbatim>\<open>JSON.stringify\<close> did not write: the remembered user name, when the channel is
  called \<^verbatim>\<open>username\<close>. What \<^verbatim>\<open>JSON.parse\<close> makes of such a text is the browser's
  business and is a parameter of the handler: the text is no JSON
  (\<^verbatim>\<open>SyntaxError\<close>), or it is a falsy value (\<^verbatim>\<open>null\<close>, \<^verbatim>\<open>false\<close>,
  \<^verbatim>\<open>0\<close>, the empty string) and the replay is skipped, or it is a truthy value that
  is no array and has no \<^verbatim>\<open>forEach\<close> (\<^verbatim>\<open>TypeError\<close>), or it is an array, whose
  elements are replayed. An array is taken to hold messages, as the log does.
\<close>

datatype parsed = NotJson | FalsyValue | NotAnArray | MessageArray "message list"

definition handleOpen :: "(string \<Rightarrow> parsed) \<Rightarrow> chat \<Rightarrow> outcome" where
  "handleOpen parse s =
     (let s1 = emit (ConsoleLog ''Connection with the server established.'') s
      in case localStorage s1 (channel s1) of
           None \<Rightarrow> Done s1
         | Some (Json storedMessages) \<Rightarrow> replay storedMessages s1
         | Some (Raw u) \<Rightarrow>
             (case parse u of
                NotJson \<Rightarrow> Thrown SyntaxError s1
              | FalsyValue \<Rightarrow> Done s1
              | NotAnArray \<Rightarrow> Thrown TypeError s1
              | MessageArray storedMessages \<Rightarrow> replay storedMessages s1))"

definition handleMessage :: "message \<Rightarrow> chat \<Rightarrow> outcome" where
  "handleMessage m s =
     (if msg_type m \<noteq> ''heartbeat''
      then (let s1 = s\<lparr>messages := messages s @ [m]\<rparr>;
                s2 = s1\<lparr>localStorage := (localStorage s1)(channel s1 \<mapsto> Json (messages s1))\<rparr>
            in and_then (appendChild (createMessageElement m) s2)
                 (\<lambda>s3. Done (emit ScrollToBottom s3)))
      else Done s)"

definition disconnect_notice :: message where
  "disconnect_notice =
     \<lparr>msg_type = ''notification'',
      msg_data = ''You are disconnected!'',
      msg_username = ''The Server'',
      msg_rest = []\<rparr>"

definition handleClose :: "chat \<Rightarrow> chat" where
  "handleClose s =
     (let s1 = emit (ConsoleLog ''Connection closed.'') s;
          s2 = s1\<lparr>messages := messages s1 @ [disconnect_notice]\<rparr>;
          s3 = s2\<lparr>localStorage := (localStorage s2)(channel s2 \<mapsto> Json (messages s2))\<rparr>
      in s3\<lparr>messages := [], socket := None\<rparr>)"

definition handleError :: "chat \<Rightarrow> chat" where
  "handleError s = emit (ConsoleError ''Connection error:'') s"

text \<open>
  The listeners that \<^verbatim>\<open>connect\<close> registers are bound to the controller, not to the
  socket they were registered on, and are never removed. The browser fires
  \<^verbatim>\<open>open\<close> on a connecting socket, \<^verbatim>\<open>message\<close> on an open one, and
  \<^verbatim>\<open>close\<close> once on any socket that is not closed yet. The first argument is the
  parameter of \<open>handleOpen\<close>.
\<close>

datatype socket_event = Opened | Received message | Failed | Closed

definition deliver ::
    "(string \<Rightarrow> parsed) \<Rightarrow> nat \<Rightarrow> socket_event \<Rightarrow> chat \<Rightarrow> outcome" where
  "deliver parse k ev s =
     (case ev of
        Opened \<Rightarrow>
          if ready s k = CONNECTING
          then handleOpen parse (s\<lparr>sockets := (sockets s)[k := OPEN]\<rparr>)
          else Done s
      | Received m \<Rightarrow> if ready s k = OPEN then handleMessage m s else Done s
      | Failed \<Rightarrow> Done (handleError s)
      | Closed \<Rightarrow>
          if k < length (sockets s) \<and> ready s k \<noteq> CLOSED
          then Done (handleClose (s\<lparr>sockets := (sockets s)[k := CLOSED]\<rparr>))
          else Done s)"

text \<open>
  A run of inbound messages through the message handler. Each message is a separate
  event, so a handler that throws does not keep the later ones from being handled.
\<close>

fun handleMessages :: "message list \<Rightarrow> chat \<Rightarrow> chat" where
  "handleMessages [] s = s"
| "handleMessages (m # ms) s = handleMessages ms (state_of (handleMessage m s))"


section \<open>Scenarios and concrete states\<close>

text \<open>Small desktops, windows and events on which the theorems below are evaluated.\<close>

definition title_press :: mouse_event where
  "title_press =
     \<lparr>tagName = ''DIV'', clientX = 100, clientY = 100, e_offsetX = 10, e_offsetY = 5\<rparr>"

definition pointer_at :: "int \<Rightarrow> int \<Rightarrow> mouse_event" where
  "pointer_at x y =
     \<lparr>tagName = ''DIV'', clientX = x, clientY = y, e_offsetX = 0, e_offsetY = 0\<rparr>"

definition one_window :: "int \<Rightarrow> int \<Rightarrow> desktop" where
  "one_window iw ih = \<lparr>instances = [new_window iw ih []], currentlyDraggedInstance = None\<rparr>"

definition two_windows :: desktop where
  "two_windows =
     \<lparr>instances = [new_window 800 600 [], new_window 800 600 []],
      currentlyDraggedInstance = None\<rparr>"

definition fresh_dropdown :: dropdown where
  "fresh_dropdown = \<lparr>content_display = [], active = False\<rparr>"

definition menu_window :: window where
  "menu_window = new_window 800 600 [fresh_dropdown, fresh_dropdown]"

text \<open>Forms as the three menus submit them, and a few states of the chat controller.\<close>

definition auth_form :: "string \<Rightarrow> bool \<Rightarrow> form" where
  "auth_form u remember =
     \<lparr>form_id = ''auth-form'',
      entries = (''username'', u) # (if remember then [(''remember-me'', ''on'')] else [])\<rparr>"

definition channel_form :: "string \<Rightarrow> form" where
  "channel_form c = \<lparr>form_id = ''channel-form'', entries = [(''channel'', c)]\<rparr>"

definition message_form :: "string \<Rightarrow> form" where
  "message_form m = \<lparr>form_id = ''message-form'', entries = [(''message'', m)]\<rparr>"

definition hello :: message where
  "hello = \<lparr>msg_type = ''message'', msg_data = ''hello'', msg_username = ''bo'',
            msg_rest = [(''channel'', ''lobby'')]\<rparr>"

definition greeting :: message where
  "greeting = \<lparr>msg_type = ''notification'', msg_data = ''You are connected!'',
              msg_username = ''The Server'', msg_rest = []\<rparr>"

definition heartbeat :: message where
  "heartbeat = \<lparr>msg_type = ''heartbeat'', msg_data = [], msg_username = [], msg_rest = []\<rparr>"

text \<open>
  A chat window opened with nothing stored; the user signs in as \<open>al\<close> and chooses the
  channel \<open>lobby\<close>, which starts the first connection; then that connection opens.
  In none of the states below is a text other than a serialised log stored under the name
  of a channel, so \<^verbatim>\<open>JSON.parse\<close> is never applied to one; the events are delivered
  with \<open>no_raw_json\<close> standing in for it.
\<close>

definition no_raw_json :: "string \<Rightarrow> parsed" where
  "no_raw_json u = NotJson"

definition fresh_chat :: chat where
  "fresh_chat = state_of (connectedCallback (new_chat Map.empty))"

definition signed_in :: chat where
  "signed_in = state_of (handleSubmit (auth_form ''al'' False) fresh_chat)"

definition in_lobby :: chat where
  "in_lobby = state_of (handleSubmit (channel_form ''lobby'') signed_in)"

definition lobby_open :: chat where
  "lobby_open = state_of (deliver no_raw_json 0 Opened in_lobby)"

text \<open>
  From \<open>in_lobby\<close>, while the first connection is still being established, the user
  changes the channel to \<open>den\<close>.
\<close>

definition switching :: chat where
  "switching = state_of (handleClick (Some ''change-channel'') in_lobby)"

definition in_den :: chat where
  "in_den = state_of (handleSubmit (channel_form ''den'') switching)"

text \<open>
  The round trip on a connection \<open>k\<close>: two inbound messages, the close of the
  connection, then the user goes back to the channel menu and submits the channel \<open>c\<close>
  again, and the connection this creates opens.
\<close>

definition round_trip ::
    "(string \<Rightarrow> parsed) \<Rightarrow> nat \<Rightarrow> message \<Rightarrow> message \<Rightarrow> string \<Rightarrow> chat \<Rightarrow> outcome" where
  "round_trip parse k m1 m2 c s =
     and_then (deliver parse k (Received m1) s) (\<lambda>s1.
     and_then (deliver parse k (Received m2) s1) (\<lambda>s2.
     and_then (deliver parse k Closed s2) (\<lambda>s3.
     and_then (handleClick (Some ''change-channel'') s3) (\<lambda>s4.
     and_then (handleSubmit (channel_form c) s4) (\<lambda>s5.
     deliver parse (length (sockets s)) Opened s5)))))"

text \<open>
  In \<open>in_den\<close> the first connection, made for \<open>lobby\<close>, is still there; it opens and
  delivers a message.
\<close>

definition late_message :: chat where
  "late_message =
     state_of (deliver no_raw_json 0 (Received hello)
       (state_of (deliver no_raw_json 0 Opened in_den)))"

text \<open>
  From \<open>lobby_open\<close>, with one message in the log, the user changes the channel to
  \<open>den\<close>; the \<^verbatim>\<open>close\<close> event of the first connection arrives after the second
  connection has been created.
\<close>

definition lobby_chat :: chat where
  "lobby_chat = state_of (deliver no_raw_json 0 (Received hello) lobby_open)"

definition leaving :: chat where
  "leaving = state_of (handleClick (Some ''change-channel'') lobby_chat)"

definition rejoined :: chat where
  "rejoined = state_of (handleSubmit (channel_form ''den'') leaving)"

definition late_close :: chat where
  "late_close = state_of (deliver no_raw_json 0 Closed rejoined)"

text \<open>
  In \<open>switching\<close> the user is back at the channel menu, there is no render target, and
  the first connection is still being established; it opens, and the server's greeting
  arrives on it.
\<close>

definition orphaned :: outcome where
  "orphaned =
     deliver no_raw_json 0 (Received greeting)
       (state_of (deliver no_raw_json 0 Opened switching))"


section \<open>Dragging\<close>

lemma update_instance_nth:
  "i < length (instances d) \<Longrightarrow> instances (update_instance i f d) ! i = f (instances d ! i)"
  by (simp add: update_instance_def)

lemma update_instance_current:
  "currentlyDraggedInstance (update_instance i f d) = currentlyDraggedInstance d"
  by (simp add: update_instance_def)

lemma update_instance_length:
  "length (instances (update_instance i f d)) = length (instances d)"
  by (simp add: update_instance_def)

lemma move_window_frame:
  "isDragging (move_window e w) = isDragging w"
  "offsetX (move_window e w) = offsetX w"
  "offsetY (move_window e w) = offsetY w"
  "maxX (move_window e w) = maxX w"
  "maxY (move_window e w) = maxY w"
  by (simp_all add: move_window_def)

lemma move_active:
  assumes "currentlyDraggedInstance d = Some i" "i < length (instances d)"
    "isDragging (instances d ! i)"
  shows "handleMouseMoveForDrag e d = update_instance i (move_window e) d"
  using assms by (simp add: handleMouseMoveForDrag_def)

lemma move_keeps_drag:
  assumes "currentlyDraggedInstance d = Some i" "i < length (instances d)"
    "isDragging (instances d ! i)"
    "offsetX (instances d ! i) = Some ox" "offsetY (instances d ! i) = Some oy"
  shows "currentlyDraggedInstance (handleMouseMoveForDrag e d) = Some i
       \<and> i < length (instances (handleMouseMoveForDrag e d))
       \<and> isDragging (instances (handleMouseMoveForDrag e d) ! i)
       \<and> offsetX (instances (handleMouseMoveForDrag e d) ! i) = Some ox
       \<and> offsetY (instances (handleMouseMoveForDrag e d) ! i) = Some oy
       \<and> maxX (instances (handleMouseMoveForDrag e d) ! i) = maxX (instances d ! i)
       \<and> maxY (instances (handleMouseMoveForDrag e d) ! i) = maxY (instances d ! i)
       \<and> style_left (instances (handleMouseMoveForDrag e d) ! i)
           = Some (newX (instances d ! i) (clientX e) ox)
       \<and> style_top (instances (handleMouseMoveForDrag e d) ! i)
           = Some (newY (instances d ! i) (clientY e) oy)"
  using assms
  by (simp add: move_active update_instance_nth update_instance_current
      update_instance_length move_window_frame)
     (simp add: move_window_def newX_def newY_def)

lemma moves_position:
  assumes "currentlyDraggedInstance d = Some i" "i < length (instances d)"
    "isDragging (instances d ! i)"
    "offsetX (instances d ! i) = Some ox" "offsetY (instances d ! i) = Some oy"
    "es \<noteq> []"
  shows "style_left (instances (pointer_moves es d) ! i)
           = Some (newX (instances d ! i) (clientX (last es)) ox)
       \<and> style_top (instances (pointer_moves es d) ! i)
           = Some (newY (instances d ! i) (clientY (last es)) oy)"
  using assms
proof (induction es arbitrary: d)
  case Nil
  then show ?case by simp
next
  case (Cons e es)
  note k = move_keeps_drag [OF Cons.prems(1-5), of e]
  show ?case
  proof (cases "es = []")
    case True
    with k show ?thesis by simp
  next
    case False
    from k have "style_left (instances (pointer_moves es (handleMouseMoveForDrag e d)) ! i)
           = Some (newX (instances (handleMouseMoveForDrag e d) ! i) (clientX (last es)) ox)
       \<and> style_top (instances (pointer_moves es (handleMouseMoveForDrag e d)) ! i)
           = Some (newY (instances (handleMouseMoveForDrag e d) ! i) (clientY (last es)) oy)"
      using Cons.IH [of "handleMouseMoveForDrag e d"] False by blast
    with k False show ?thesis by (simp add: newX_def newY_def)
  qed
qed

lemmas drag_eval = one_window_def two_windows_def new_window_def title_press_def pointer_at_def
  handleTitleBarMouseDown_def handleMouseMoveForDrag_def update_instance_def move_window_def
  newX_def newY_def stopDrag_def

text \<open>
  C2, as amended. While a drag is active (an instance is registered, its flag is set and
  its offsets are known), every pointer move sets the position of the dragged window to
  \<open>x = min (clientX - offsetX) (maxX - 1)\<close> and
  \<open>y = min (max 0 (clientY - offsetY)) maxY\<close>; so after any non-empty run of pointer
  moves the position is the one computed from the last event, with \<open>x \<le> maxX - 1\<close> and
  \<open>y \<le> maxY\<close>, and with \<open>0 \<le> y\<close> provided that \<open>0 \<le> maxY\<close>. When no instance is
  registered, or the registered instance is not dragging, a pointer move changes nothing.
\<close>

theorem pointer_move_position:
  "(currentlyDraggedInstance d = Some i \<and> i < length (instances d)
      \<and> isDragging (instances d ! i)
      \<and> offsetX (instances d ! i) = Some ox \<and> offsetY (instances d ! i) = Some oy
      \<and> es \<noteq> [] \<longrightarrow>
    (\<exists>x y. style_left (instances (pointer_moves es d) ! i) = Some x
         \<and> style_top (instances (pointer_moves es d) ! i) = Some y
         \<and> x = min (clientX (last es) - ox) (maxX (instances d ! i) - 1)
         \<and> y = min (max 0 (clientY (last es) - oy)) (maxY (instances d ! i))
         \<and> x \<le> maxX (instances d ! i) - 1
         \<and> y \<le> maxY (instances d ! i)
         \<and> (0 \<le> maxY (instances d ! i) \<longrightarrow> 0 \<le> y)))
   \<and> ((case currentlyDraggedInstance d of
          None \<Rightarrow> True
        | Some j \<Rightarrow> \<not> (j < length (instances d) \<and> isDragging (instances d ! j)))
       \<longrightarrow> handleMouseMoveForDrag e d = d)"
proof (intro conjI impI)
  assume a: "currentlyDraggedInstance d = Some i \<and> i < length (instances d)
      \<and> isDragging (instances d ! i)
      \<and> offsetX (instances d ! i) = Some ox \<and> offsetY (instances d ! i) = Some oy
      \<and> es \<noteq> []"
  then have "style_left (instances (pointer_moves es d) ! i)
           = Some (newX (instances d ! i) (clientX (last es)) ox)
       \<and> style_top (instances (pointer_moves es d) ! i)
           = Some (newY (instances d ! i) (clientY (last es)) oy)"
    using moves_position [of d i ox oy es] by blast
  then show "\<exists>x y. style_left (instances (pointer_moves es d) ! i) = Some x
         \<and> style_top (instances (pointer_moves es d) ! i) = Some y
         \<and> x = min (clientX (last es) - ox) (maxX (instances d ! i) - 1)
         \<and> y = min (max 0 (clientY (last es) - oy)) (maxY (instances d ! i))
         \<and> x \<le> maxX (instances d ! i) - 1
         \<and> y \<le> maxY (instances d ! i)
         \<and> (0 \<le> maxY (instances d ! i) \<longrightarrow> 0 \<le> y)"
    by (simp add: newX_def newY_def)
next
  assume "case currentlyDraggedInstance d of
          None \<Rightarrow> True
        | Some j \<Rightarrow> \<not> (j < length (instances d) \<and> isDragging (instances d ! j))"
  then show "handleMouseMoveForDrag e d = d"
    by (auto simp: handleMouseMoveForDrag_def split: option.splits)
qed

text \<open>
  The theorem at a window dragged in an 800 by 600 viewport: the pointer ends right of and
  above the viewport, and the window stops at \<open>x = 799\<close>, \<open>y = 0\<close>; without a
  drag the desktop is unchanged.
\<close>

theorem pointer_move_position_witness:
  "currentlyDraggedInstance
      (handleTitleBarMouseDown 0 800 600 title_press (one_window 800 600)) = Some 0
   \<and> isDragging (instances
      (handleTitleBarMouseDown 0 800 600 title_press (one_window 800 600)) ! 0)
   \<and> style_left (instances (pointer_moves [pointer_at 300 300, pointer_at 900 (- 20)]
      (handleTitleBarMouseDown 0 800 600 title_press (one_window 800 600))) ! 0) = Some 799
   \<and> style_top (instances (pointer_moves [pointer_at 300 300, pointer_at 900 (- 20)]
      (handleTitleBarMouseDown 0 800 600 title_press (one_window 800 600))) ! 0) = Some 0
   \<and> handleMouseMoveForDrag (pointer_at 300 300) (one_window 800 600) = one_window 800 600"
  using pointer_move_position
      [of "handleTitleBarMouseDown 0 800 600 title_press (one_window 800 600)" 0 10 5
        "[pointer_at 300 300, pointer_at 900 (- 20)]"]
    pointer_move_position [of "one_window 800 600" 0 0 0 "[]" "pointer_at 300 300"]
  by (simp add: drag_eval)

text \<open>
  C2 as stated fails where the viewport is lower than 60 pixels. With
  \<^verbatim>\<open>window.innerHeight = 50\<close> the mouse-down sets \<open>maxY = - 10\<close>, and the next
  pointer move of the active drag puts the window at \<open>y = - 10\<close>, which is below 0.
\<close>

theorem pointer_move_negative_maxY:
  "currentlyDraggedInstance
      (handleTitleBarMouseDown 0 800 50 title_press (one_window 800 50)) = Some 0
   \<and> isDragging (instances
      (handleTitleBarMouseDown 0 800 50 title_press (one_window 800 50)) ! 0)
   \<and> maxY (instances
      (handleTitleBarMouseDown 0 800 50 title_press (one_window 800 50)) ! 0) = - 10
   \<and> style_top (instances (handleMouseMoveForDrag (pointer_at 300 40)
      (handleTitleBarMouseDown 0 800 50 title_press (one_window 800 50))) ! 0) = Some (- 10)
   \<and> \<not> (0::int) \<le> - 10"
  by (simp add: drag_eval)

text \<open>
  C5 at a failing input. Two windows; a mouse-down on the title bar of the first, then,
  with no mouse-up in between, a mouse-down on the title bar of the second. The registry
  now names the second window only, but the first window still has its dragging flag
  set, and \<^verbatim>\<open>stopDrag\<close>, which resets the flag of the registered instance, leaves it
  set.
\<close>

theorem stale_dragging_flag:
  "currentlyDraggedInstance
     (handleTitleBarMouseDown 1 800 600 title_press
        (handleTitleBarMouseDown 0 800 600 title_press two_windows)) = Some 1
   \<and> isDragging (instances
        (handleTitleBarMouseDown 1 800 600 title_press
           (handleTitleBarMouseDown 0 800 600 title_press two_windows)) ! 0)
   \<and> currentlyDraggedInstance (stopDrag
        (handleTitleBarMouseDown 1 800 600 title_press
           (handleTitleBarMouseDown 0 800 600 title_press two_windows))) = None
   \<and> isDragging (instances (stopDrag
        (handleTitleBarMouseDown 1 800 600 title_press
           (handleTitleBarMouseDown 0 800 600 title_press two_windows))) ! 0)"
  by (simp add: drag_eval)

section \<open>Dropdown menus: at most one is open\<close>

lemma not_open_closed: "\<not> is_open (closed dd)"
  by (simp add: is_open_def closed_def)

lemma length_close_from: "length (close_from n ex ds) = length ds"
  by (induction ds arbitrary: n) simp_all

lemma nth_close_from:
  "j < length ds \<Longrightarrow>
   close_from n ex ds ! j = (if ex = Some (n + j) then ds ! j else closed (ds ! j))"
proof (induction ds arbitrary: n j)
  case Nil
  then show ?case by simp
next
  case (Cons dd ds)
  show ?case
  proof (cases j)
    case 0
    then show ?thesis by simp
  next
    case (Suc j')
    with Cons.prems have "j' < length ds" by simp
    from Cons.IH [OF this, of "Suc n"] Suc show ?thesis by simp
  qed
qed

lemma filter_close_all: "filter is_open (close_from n None ds) = []"
  by (induction ds arbitrary: n) (simp_all add: not_open_closed)

lemma at_most_one:
  "(\<forall>j < length xs. j \<noteq> i \<longrightarrow> \<not> P (xs ! j)) \<Longrightarrow> length (filter P xs) \<le> 1"
proof (induction xs arbitrary: i)
  case Nil
  then show ?case by simp
next
  case (Cons x xs)
  show ?case
  proof (cases i)
    case 0
    with Cons.prems have "\<forall>j < length xs. \<not> P (xs ! j)" by auto
    then have "filter P xs = []"
      by (auto simp: filter_empty_conv in_set_conv_nth)
    then show ?thesis by simp
  next
    case (Suc i')
    with Cons.prems have "\<not> P x" by auto
    moreover from Cons.prems Suc have "\<forall>j < length xs. j \<noteq> i' \<longrightarrow> \<not> P (xs ! j)" by auto
    then have "length (filter P xs) \<le> 1" by (rule Cons.IH)
    ultimately show ?thesis by simp
  qed
qed

lemma filter_update_le:
  "\<not> P y \<Longrightarrow> length (filter P (xs[i := y])) \<le> length (filter P xs)"
proof (induction xs arbitrary: i)
  case Nil
  then show ?case by simp
next
  case (Cons x xs)
  then show ?case by (cases i) (auto intro: le_SucI)
qed

lemma toggle_nth:
  assumes "i < length (dropdowns w)" "j < length (dropdowns w)"
  shows "is_open (dropdowns (toggleDropdown i w) ! j)
           = (if j = i then \<not> is_open (dropdowns w ! i) else False)"
  using assms
  by (simp add: toggleDropdown_def closeAllDropdowns_def Let_def length_close_from
      nth_close_from nth_list_update is_open_def closed_def)

lemma toggle_length: "length (dropdowns (toggleDropdown i w)) = length (dropdowns w)"
  by (simp add: toggleDropdown_def closeAllDropdowns_def Let_def length_close_from)

lemma click_count:
  assumes "open_dropdowns w \<le> 1"
  shows "open_dropdowns (handleControlPanelClick t w) \<le> 1"
proof (cases t)
  case (Activator i)
  show ?thesis
  proof (cases "i < length (dropdowns w)")
    case True
    have "\<forall>j < length (dropdowns (toggleDropdown i w)). j \<noteq> i \<longrightarrow>
            \<not> is_open (dropdowns (toggleDropdown i w) ! j)"
      using True by (simp add: toggle_length toggle_nth)
    then have "length (filter is_open (dropdowns (toggleDropdown i w))) \<le> 1"
      by (rule at_most_one)
    with Activator show ?thesis
      by (simp add: handleControlPanelClick_def open_dropdowns_def)
  next
    case False
    with assms Activator show ?thesis
      by (simp add: handleControlPanelClick_def toggleDropdown_def)
  qed
next
  case (Choice i c)
  have "length (filter is_open ((dropdowns w)[i := closed (dropdowns w ! i)]))
          \<le> length (filter is_open (dropdowns w))"
    by (rule filter_update_le) (rule not_open_closed)
  with assms Choice show ?thesis
    by (simp add: handleControlPanelClick_def closeDropdown_def open_dropdowns_def)
next
  case (Content i)
  with assms show ?thesis by (simp add: handleControlPanelClick_def)
next
  case Elsewhere
  then show ?thesis
    by (simp add: handleControlPanelClick_def closeAllDropdowns_def open_dropdowns_def
        filter_close_all)
qed

lemma clicks_count: "open_dropdowns w \<le> 1 \<Longrightarrow> open_dropdowns (clicks ts w) \<le> 1"
proof (induction ts arbitrary: w)
  case Nil
  then show ?case by simp
next
  case (Cons t ts)
  from Cons.prems have "open_dropdowns (handleControlPanelClick t w) \<le> 1"
    by (rule click_count)
  then have "open_dropdowns (clicks ts (handleControlPanelClick t w)) \<le> 1"
    by (rule Cons.IH)
  then show ?case by simp
qed

lemma choice_nth:
  assumes "i < length (dropdowns w)"
  shows "\<not> is_open (dropdowns (closeDropdown i w) ! i)"
    and "j \<noteq> i \<Longrightarrow> dropdowns (closeDropdown i w) ! j = dropdowns w ! j"
  using assms by (simp_all add: closeDropdown_def not_open_closed)

lemma elsewhere_nth:
  "j < length (dropdowns w) \<Longrightarrow> \<not> is_open (dropdowns (closeAllDropdowns None w) ! j)"
  by (simp add: closeAllDropdowns_def nth_close_from not_open_closed)

lemmas menu_eval = menu_window_def fresh_dropdown_def new_window_def
  handleControlPanelClick_def toggleDropdown_def closeDropdown_def closeAllDropdowns_def
  closed_def is_open_def open_dropdowns_def

text \<open>
  C8, as amended. In a window with at most one dropdown open, at most one is open after
  any run of clicks. A click on the activator of dropdown \<open>i\<close> toggles that dropdown and
  leaves every other one closed; a click on one of its choices closes it and leaves the
  others as they are; a click whose target is the content element of a dropdown itself
  changes nothing; a click on anything else closes every dropdown.
\<close>

theorem dropdown_protocol:
  "(open_dropdowns w \<le> 1 \<longrightarrow> open_dropdowns (clicks ts w) \<le> 1)
   \<and> (i < length (dropdowns w) \<longrightarrow>
        is_open (dropdowns (handleControlPanelClick (Activator i) w) ! i)
          = (\<not> is_open (dropdowns w ! i))
        \<and> (\<forall>j < length (dropdowns w). j \<noteq> i \<longrightarrow>
              \<not> is_open (dropdowns (handleControlPanelClick (Activator i) w) ! j))
        \<and> \<not> is_open (dropdowns (handleControlPanelClick (Choice i c) w) ! i)
        \<and> (\<forall>j < length (dropdowns w). j \<noteq> i \<longrightarrow>
              dropdowns (handleControlPanelClick (Choice i c) w) ! j = dropdowns w ! j)
        \<and> handleControlPanelClick (Content i) w = w)
   \<and> (\<forall>j < length (dropdowns w).
         \<not> is_open (dropdowns (handleControlPanelClick Elsewhere w) ! j))"
proof -
  have inv: "open_dropdowns w \<le> 1 \<longrightarrow> open_dropdowns (clicks ts w) \<le> 1"
    using clicks_count by blast
  have act: "i < length (dropdowns w) \<longrightarrow>
        is_open (dropdowns (handleControlPanelClick (Activator i) w) ! i)
          = (\<not> is_open (dropdowns w ! i))
        \<and> (\<forall>j < length (dropdowns w). j \<noteq> i \<longrightarrow>
              \<not> is_open (dropdowns (handleControlPanelClick (Activator i) w) ! j))"
    by (simp add: handleControlPanelClick_def toggle_nth)
  have cho: "i < length (dropdowns w) \<longrightarrow>
        \<not> is_open (dropdowns (handleControlPanelClick (Choice i c) w) ! i)
        \<and> (\<forall>j < length (dropdowns w). j \<noteq> i \<longrightarrow>
              dropdowns (handleControlPanelClick (Choice i c) w) ! j = dropdowns w ! j)"
    by (simp add: handleControlPanelClick_def choice_nth)
  have con: "handleControlPanelClick (Content i) w = w"
    by (simp add: handleControlPanelClick_def)
  have els: "\<forall>j < length (dropdowns w).
         \<not> is_open (dropdowns (handleControlPanelClick Elsewhere w) ! j)"
    by (simp add: handleControlPanelClick_def elsewhere_nth)
  from inv act cho con els show ?thesis by blast
qed

text \<open>
  The theorem at a window with two dropdowns, the first one open.
\<close>

theorem dropdown_protocol_witness:
  "open_dropdowns (handleControlPanelClick (Activator 0) menu_window) \<le> 1
   \<and> open_dropdowns (clicks [Activator 1, Content 1, Choice 0 0]
        (handleControlPanelClick (Activator 0) menu_window)) \<le> 1
   \<and> (0::nat) < length (dropdowns (handleControlPanelClick (Activator 0) menu_window))
   \<and> \<not> is_open (dropdowns (handleControlPanelClick (Activator 0)
        (handleControlPanelClick (Activator 0) menu_window)) ! 0)
   \<and> \<not> is_open (dropdowns (handleControlPanelClick (Choice 0 1)
        (handleControlPanelClick (Activator 0) menu_window)) ! 0)
   \<and> \<not> is_open (dropdowns (handleControlPanelClick Elsewhere
        (handleControlPanelClick (Activator 0) menu_window)) ! 0)"
  using dropdown_protocol [of "handleControlPanelClick (Activator 0) menu_window"
      "[Activator 1, Content 1, Choice 0 0]" 0 1]
  by (simp add: menu_eval)

text \<open>
  C8 as stated fails for a click that hits the content element of a dropdown (its border,
  or a choice that is disabled and so takes no pointer events): the click is neither on an
  activator nor on a choice, and the open dropdown stays open.
\<close>

theorem content_click_counterexample:
  "is_open (dropdowns (handleControlPanelClick (Activator 0) menu_window) ! 0)
   \<and> is_open (dropdowns (handleControlPanelClick (Content 0)
        (handleControlPanelClick (Activator 0) menu_window)) ! 0)"
  by (simp add: menu_eval)

section \<open>The chat controller\<close>

text \<open>
  The setter and \<^verbatim>\<open>renderBody\<close> call each other; their equations are used through
  the lemmas below, one for each state.
\<close>

declare set_state.simps [simp del] renderBody.simps [simp del]

lemma set_state_channel_choice:
  "set_state ''channel-choice'' s =
     Done (emit (ReplaceChildren ChannelChoiceMenu)
       ((closeConnection (s\<lparr>priv_state := Some ''channel-choice''\<rparr>))
          \<lparr>messageListElement := None, inputFieldElement := None,
           changeChannelDisabled := True, body := ChannelChoiceMenu\<rparr>))"
  by (simp add: set_state.simps renderBody.simps)

lemma set_state_chat:
  "set_state ''chat'' s =
     Done (connect (emit (ReplaceChildren (Chat [] True))
       ((closeConnection (s\<lparr>priv_state := Some ''chat''\<rparr>))
          \<lparr>inputFieldElement := None, changeChannelDisabled := False,
           messageListElement := Some [], body := Chat [] True\<rparr>)))"
  by (simp add: set_state.simps renderBody.simps)

lemma set_state_username_choice:
  "set_state ''username-choice'' s =
     (let s1 = (closeConnection (s\<lparr>priv_state := Some ''username-choice''\<rparr>))
                 \<lparr>messageListElement := None, inputFieldElement := None\<rparr>
      in if truthy (username s1)
         then set_state ''channel-choice'' (s1\<lparr>changeChannelDisabled := True\<rparr>)
         else Done (emit (ReplaceChildren UsernameChoiceMenu)
                      (s1\<lparr>changeChannelDisabled := True, body := UsernameChoiceMenu\<rparr>)))"
  by (simp add: set_state.simps renderBody.simps Let_def)

lemma set_state_invalid:
  "v \<noteq> ''username-choice'' \<Longrightarrow> v \<noteq> ''channel-choice'' \<Longrightarrow> v \<noteq> ''chat'' \<Longrightarrow>
   set_state v s =
     Thrown (Error ''Invalid state'')
       ((closeConnection (s\<lparr>priv_state := Some v\<rparr>))
          \<lparr>messageListElement := None, inputFieldElement := None\<rparr>)"
  by (simp add: set_state.simps renderBody.simps)

lemma renderBody_invalid:
  "v \<noteq> ''username-choice'' \<Longrightarrow> v \<noteq> ''channel-choice'' \<Longrightarrow> v \<noteq> ''chat'' \<Longrightarrow>
   renderBody v s = Thrown (Error ''Invalid state'') s"
  by (simp add: renderBody.simps)

subsection \<open>Unrecognized states and forms\<close>

text \<open>
  C9. Rendering a state other than \<^verbatim>\<open>username-choice\<close>, \<^verbatim>\<open>channel-choice\<close> and
  \<^verbatim>\<open>chat\<close> throws \<^verbatim>\<open>Error('Invalid state')\<close> before anything is rendered, and so
  does assigning such a state; a submit event of a form whose id is none of
  \<^verbatim>\<open>auth-form\<close>, \<^verbatim>\<open>channel-form\<close> and \<^verbatim>\<open>message-form\<close> throws
  \<^verbatim>\<open>Error('Unhandled form submission')\<close> and changes nothing.
\<close>

theorem unrecognized_is_fatal:
  "(v \<noteq> ''username-choice'' \<and> v \<noteq> ''channel-choice'' \<and> v \<noteq> ''chat'' \<longrightarrow>
      renderBody v s = Thrown (Error ''Invalid state'') s
      \<and> (\<exists>s'. set_state v s = Thrown (Error ''Invalid state'') s'))
   \<and> (form_id f \<noteq> ''auth-form'' \<and> form_id f \<noteq> ''channel-form''
        \<and> form_id f \<noteq> ''message-form'' \<longrightarrow>
      handleSubmit f s = Thrown (Error ''Unhandled form submission'') s)"
proof -
  have a: "v \<noteq> ''username-choice'' \<and> v \<noteq> ''channel-choice'' \<and> v \<noteq> ''chat'' \<longrightarrow>
      renderBody v s = Thrown (Error ''Invalid state'') s
      \<and> (\<exists>s'. set_state v s = Thrown (Error ''Invalid state'') s')"
    by (simp add: renderBody_invalid set_state_invalid)
  have b: "form_id f \<noteq> ''auth-form'' \<and> form_id f \<noteq> ''channel-form''
        \<and> form_id f \<noteq> ''message-form'' \<longrightarrow>
      handleSubmit f s = Thrown (Error ''Unhandled form submission'') s"
    by (simp add: handleSubmit_def)
  from a b show ?thesis by blast
qed

text \<open>The theorem at the state \<open>lobby\<close> and at a form with the id \<open>search-form\<close>.\<close>

theorem unrecognized_is_fatal_witness:
  "renderBody ''lobby'' fresh_chat = Thrown (Error ''Invalid state'') fresh_chat
   \<and> (\<exists>s'. set_state ''lobby'' fresh_chat = Thrown (Error ''Invalid state'') s')
   \<and> handleSubmit \<lparr>form_id = ''search-form'', entries = []\<rparr> fresh_chat
     = Thrown (Error ''Unhandled form submission'') fresh_chat"
  using unrecognized_is_fatal [of "''lobby''" fresh_chat
      "\<lparr>form_id = ''search-form'', entries = []\<rparr>"]
  by simp

subsection \<open>The concrete states, computed\<close>

lemmas chat_eval = fresh_chat_def signed_in_def in_lobby_def lobby_open_def switching_def
  in_den_def auth_form_def channel_form_def message_form_def new_chat_def
  connectedCallback_def handleSubmit_def handleAuthFormSubmit_def
  handleChannelChoiceFormSubmit_def handleMessageFormSubmit_def formData_get_def
  set_state_channel_choice set_state_chat set_state_username_choice
  set_username_def username_def closeConnection_def connect_def emit_def ready_def
  handleClick_def deliver_def handleOpen_def handleMessage_def handleClose_def
  appendChild_def sendMessage_def clear_input_def Let_def

lemma fresh_chat_eq:
  "fresh_chat = (new_chat Map.empty)
     \<lparr>priv_state := Some ''username-choice'', changeChannelDisabled := True,
      body := UsernameChoiceMenu, effects := [ReplaceChildren UsernameChoiceMenu]\<rparr>"
  by (simp add: chat_eval)

lemma signed_in_eq:
  "signed_in = (new_chat Map.empty)
     \<lparr>priv_state := Some ''channel-choice'', priv_username := Some (Raw ''al''),
      changeChannelDisabled := True,
      body := ChannelChoiceMenu,
      effects := [ReplaceChildren UsernameChoiceMenu, ReplaceChildren ChannelChoiceMenu]\<rparr>"
  by (simp add: chat_eval)

lemma in_lobby_eq:
  "in_lobby = (new_chat Map.empty)
     \<lparr>priv_state := Some ''chat'', priv_username := Some (Raw ''al''),
      socket := Some 0, sockets := [CONNECTING], channel := ''lobby'',
      messageListElement := Some [],
      changeChannelDisabled := False,
      body := Chat [] True,
      effects := [ReplaceChildren UsernameChoiceMenu, ReplaceChildren ChannelChoiceMenu,
                  ReplaceChildren (Chat [] True), WebSocketNew 0]\<rparr>"
  by (simp add: chat_eval)

lemma lobby_open_eq:
  "lobby_open = (new_chat Map.empty)
     \<lparr>priv_state := Some ''chat'', priv_username := Some (Raw ''al''),
      socket := Some 0, sockets := [OPEN], channel := ''lobby'',
      messageListElement := Some [],
      changeChannelDisabled := False,
      body := Chat [] True,
      effects := [ReplaceChildren UsernameChoiceMenu, ReplaceChildren ChannelChoiceMenu,
                  ReplaceChildren (Chat [] True), WebSocketNew 0,
                  ConsoleLog ''Connection with the server established.'']\<rparr>"
  by (simp add: in_lobby_eq lobby_open_def deliver_def ready_def handleOpen_def emit_def new_chat_def)

lemma createMessageElement_hello: "createMessageElement hello = UserMessage ''bo'' ''hello''"
  by (simp add: createMessageElement_def hello_def toLowerCase_def lower_char_def)

lemma createMessageElement_notice:
  "createMessageElement disconnect_notice = ServerMessage ''You are disconnected!''"
  by (simp add: createMessageElement_def disconnect_notice_def toLowerCase_def lower_char_def)

lemma createMessageElement_greeting:
  "createMessageElement greeting = ServerMessage ''You are connected!''"
  by (simp add: createMessageElement_def greeting_def toLowerCase_def lower_char_def)

lemma switching_eq:
  "switching = in_lobby
     \<lparr>priv_state := Some ''channel-choice'', messageListElement := None,
      changeChannelDisabled := True, body := ChannelChoiceMenu,
      effects := effects in_lobby @ [ReplaceChildren ChannelChoiceMenu]\<rparr>"
  by (simp add: switching_def handleClick_def set_state_channel_choice closeConnection_def
      ready_def emit_def in_lobby_eq new_chat_def)

lemma in_den_eq:
  "in_den = in_lobby
     \<lparr>priv_state := Some ''chat'', socket := Some 1, sockets := [CONNECTING, CONNECTING],
      channel := ''den'',
      effects := effects in_lobby @ [ReplaceChildren ChannelChoiceMenu,
                   ReplaceChildren (Chat [] True), WebSocketNew 1]\<rparr>"
  by (simp add: in_den_def switching_eq channel_form_def handleSubmit_def
      handleChannelChoiceFormSubmit_def formData_get_def set_state_chat closeConnection_def
      connect_def ready_def emit_def in_lobby_eq new_chat_def)

lemma lobby_chat_eq:
  "lobby_chat = lobby_open
     \<lparr>localStorage := [''lobby'' \<mapsto> Json [hello]],
      messages := [hello],
      messageListElement := Some [UserMessage ''bo'' ''hello''],
      effects := effects lobby_open @ [ScrollToBottom]\<rparr>"
  by (simp add: lobby_chat_def deliver_def ready_def handleMessage_def appendChild_def emit_def
      Let_def lobby_open_eq new_chat_def createMessageElement_hello)
     (simp add: hello_def)

lemma leaving_eq:
  "leaving = lobby_chat
     \<lparr>priv_state := Some ''channel-choice'', socket := None, sockets := [CLOSING],
      messageListElement := None, changeChannelDisabled := True, body := ChannelChoiceMenu,
      effects := effects lobby_chat @ [WebSocketClose 0, ReplaceChildren ChannelChoiceMenu]\<rparr>"
  by (simp add: leaving_def handleClick_def set_state_channel_choice closeConnection_def
      ready_def emit_def lobby_chat_eq lobby_open_eq new_chat_def)

lemma rejoined_eq:
  "rejoined = leaving
     \<lparr>priv_state := Some ''chat'', socket := Some 1, sockets := [CLOSING, CONNECTING],
      channel := ''den'',
      messageListElement := Some [], changeChannelDisabled := False, body := Chat [] True,
      effects := effects leaving @ [ReplaceChildren (Chat [] True), WebSocketNew 1]\<rparr>"
  by (simp add: rejoined_def handleSubmit_def channel_form_def handleChannelChoiceFormSubmit_def
      formData_get_def set_state_chat closeConnection_def connect_def
      ready_def emit_def leaving_eq lobby_chat_eq lobby_open_eq new_chat_def)

subsection \<open>State transitions\<close>

lemma closeConnection_priv_state:
  "closeConnection (s\<lparr>priv_state := x\<rparr>) = (closeConnection s)\<lparr>priv_state := x\<rparr>"
  by (simp add: closeConnection_def emit_def ready_def split: option.splits)

lemma closeConnection_open:
  assumes "socket s = Some k" "ready s k = OPEN"
  shows "effects (closeConnection s) = effects s @ [WebSocketClose k]"
    and "ready (closeConnection s) k = CLOSING"
    and "socket (closeConnection s) = None"
proof -
  from assms have k: "k < length (sockets s)"
    by (simp add: ready_def split: if_splits)
  from assms show "effects (closeConnection s) = effects s @ [WebSocketClose k]"
    by (simp add: closeConnection_def emit_def)
  from assms k show "ready (closeConnection s) k = CLOSING"
    by (simp add: closeConnection_def emit_def ready_def)
  from assms show "socket (closeConnection s) = None"
    by (simp add: closeConnection_def emit_def)
qed

lemma closeConnection_not_open:
  assumes "\<forall>k. socket s = Some k \<longrightarrow> ready s k \<noteq> OPEN"
  shows "closeConnection s = s"
  using assms by (simp add: closeConnection_def split: option.splits)

lemma closeConnection_frame:
  "length (sockets (closeConnection s)) = length (sockets s)"
  "priv_username (closeConnection s) = priv_username s"
  "localStorage (closeConnection s) = localStorage s"
  "channel (closeConnection s) = channel s"
  "messages (closeConnection s) = messages s"
  "messageListElement (closeConnection s) = messageListElement s"
  "priv_state (closeConnection s) = priv_state s"
  by (simp_all add: closeConnection_def emit_def split: option.splits)

lemma username_closeConnection: "username (closeConnection s) = username s"
  by (simp add: username_def closeConnection_frame)

lemma closeConnection_idem: "closeConnection (closeConnection s) = closeConnection s"
  by (simp add: closeConnection_def emit_def ready_def split: option.splits)

lemma closeConnection_updates:
  "closeConnection (s\<lparr>messageListElement := a, inputFieldElement := b,
      changeChannelDisabled := c\<rparr>)
   = (closeConnection s)\<lparr>messageListElement := a, inputFieldElement := b,
      changeChannelDisabled := c\<rparr>"
  by (simp add: closeConnection_def emit_def ready_def split: option.splits)

lemma new_socket_nth: "(sockets (closeConnection s) @ [x]) ! length (sockets s) = x"
  using closeConnection_frame(1) [of s] by (metis nth_append_length)

lemma truthy_username:
  "truthy (username s) = (truthy (priv_username s) \<or> truthy (localStorage s ''username''))"
  by (simp add: username_def)

lemma to_chat:
  "\<exists>s'. set_state ''chat'' s = Done s'
     \<and> effects s' = effects (closeConnection s)
          @ [ReplaceChildren (Chat [] True), WebSocketNew (length (sockets s))]
     \<and> messageListElement s' = Some []
     \<and> socket s' = Some (length (sockets s))
     \<and> ready s' (length (sockets s)) = CONNECTING
     \<and> priv_state s' = Some ''chat''"
  by (simp add: set_state_chat closeConnection_priv_state connect_def emit_def Let_def
      ready_def closeConnection_frame new_socket_nth)

lemma to_channel_choice:
  "\<exists>s'. set_state ''channel-choice'' s = Done s'
     \<and> effects s' = effects (closeConnection s) @ [ReplaceChildren ChannelChoiceMenu]
     \<and> messageListElement s' = None
     \<and> socket s' = socket (closeConnection s)
     \<and> priv_state s' = Some ''channel-choice''"
  by (simp add: set_state_channel_choice closeConnection_priv_state emit_def)

lemma to_username_choice:
  "\<exists>s'. set_state ''username-choice'' s = Done s'
     \<and> effects s' = effects (closeConnection s)
          @ [ReplaceChildren (if truthy (username s) then ChannelChoiceMenu
                              else UsernameChoiceMenu)]
     \<and> messageListElement s' = None
     \<and> socket s' = socket (closeConnection s)
     \<and> priv_state s' = Some (if truthy (username s) then ''channel-choice''
                               else ''username-choice'')"
proof (cases "truthy (username s)")
  case True
  then show ?thesis
    by (simp add: set_state_username_choice set_state_channel_choice
        closeConnection_priv_state closeConnection_updates closeConnection_idem
        truthy_username closeConnection_frame emit_def Let_def)
next
  case False
  then show ?thesis
    by (simp add: set_state_username_choice closeConnection_priv_state
        truthy_username closeConnection_frame emit_def Let_def)
qed

text \<open>
  C1, as amended. Every assignment to the state first runs \<^verbatim>\<open>closeConnection\<close>, which
  sends a close request to the referenced connection and drops the reference exactly when
  that connection is open, and leaves everything as it is otherwise; then the reference
  to the render target is cleared; then the body of the new state is rendered, and for
  \<^verbatim>\<open>chat\<close> a fresh render target is made and a new connection is created after that.
  In the recorded effects, the close request to an open connection therefore comes
  before the new body and before the creation of the next connection.
\<close>

theorem state_transition_order:
  "(socket s = Some k \<and> ready s k = OPEN \<longrightarrow>
      effects (closeConnection s) = effects s @ [WebSocketClose k]
      \<and> ready (closeConnection s) k = CLOSING
      \<and> socket (closeConnection s) = None)
   \<and> ((\<forall>j. socket s = Some j \<longrightarrow> ready s j \<noteq> OPEN) \<longrightarrow> closeConnection s = s)
   \<and> (\<exists>s'. set_state ''chat'' s = Done s'
         \<and> effects s' = effects (closeConnection s)
              @ [ReplaceChildren (Chat [] True), WebSocketNew (length (sockets s))]
         \<and> messageListElement s' = Some []
         \<and> socket s' = Some (length (sockets s))
         \<and> ready s' (length (sockets s)) = CONNECTING
         \<and> priv_state s' = Some ''chat'')
   \<and> (\<exists>s'. set_state ''channel-choice'' s = Done s'
         \<and> effects s' = effects (closeConnection s) @ [ReplaceChildren ChannelChoiceMenu]
         \<and> messageListElement s' = None
         \<and> socket s' = socket (closeConnection s)
         \<and> priv_state s' = Some ''channel-choice'')
   \<and> (\<exists>s'. set_state ''username-choice'' s = Done s'
         \<and> effects s' = effects (closeConnection s)
              @ [ReplaceChildren (if truthy (username s) then ChannelChoiceMenu
                                  else UsernameChoiceMenu)]
         \<and> messageListElement s' = None
         \<and> socket s' = socket (closeConnection s)
         \<and> priv_state s' = Some (if truthy (username s) then ''channel-choice''
                                   else ''username-choice''))"
proof -
  have close_open: "socket s = Some k \<and> ready s k = OPEN \<longrightarrow>
      effects (closeConnection s) = effects s @ [WebSocketClose k]
      \<and> ready (closeConnection s) k = CLOSING
      \<and> socket (closeConnection s) = None"
    using closeConnection_open [of s k] by blast
  have close_other: "(\<forall>j. socket s = Some j \<longrightarrow> ready s j \<noteq> OPEN) \<longrightarrow> closeConnection s = s"
    using closeConnection_not_open [of s] by blast
  from close_open close_other to_chat [of s] to_channel_choice [of s]
    to_username_choice [of s]
  show ?thesis by blast
qed

text \<open>
  The theorem at \<open>lobby_open\<close>, whose connection is open, and at \<open>in_lobby\<close>, whose
  connection is not.
\<close>

theorem state_transition_order_witness:
  "socket lobby_open = Some 0 \<and> ready lobby_open 0 = OPEN
   \<and> effects (closeConnection lobby_open) = effects lobby_open @ [WebSocketClose 0]
   \<and> ready (closeConnection lobby_open) 0 = CLOSING
   \<and> socket (closeConnection lobby_open) = None
   \<and> closeConnection in_lobby = in_lobby
   \<and> (\<exists>s'. set_state ''chat'' lobby_open = Done s'
         \<and> effects s' = effects lobby_open
              @ [WebSocketClose 0, ReplaceChildren (Chat [] True), WebSocketNew 1]
         \<and> messageListElement s' = Some []
         \<and> socket s' = Some 1)"
proof -
  have a: "socket lobby_open = Some 0 \<and> ready lobby_open 0 = OPEN"
    by (simp add: lobby_open_eq ready_def new_chat_def)
  have b: "\<forall>j. socket in_lobby = Some j \<longrightarrow> ready in_lobby j \<noteq> OPEN"
    by (simp add: in_lobby_eq ready_def new_chat_def)
  have n: "length (sockets lobby_open) = 1"
    by (simp add: lobby_open_eq new_chat_def)
  note t = state_transition_order [of lobby_open 0]
  from t a have c: "effects (closeConnection lobby_open) = effects lobby_open @ [WebSocketClose 0]
      \<and> ready (closeConnection lobby_open) 0 = CLOSING
      \<and> socket (closeConnection lobby_open) = None"
    by blast
  from state_transition_order [of in_lobby 0] b have d: "closeConnection in_lobby = in_lobby"
    by blast
  from t obtain s' where "set_state ''chat'' lobby_open = Done s'"
    and "effects s' = effects (closeConnection lobby_open)
              @ [ReplaceChildren (Chat [] True), WebSocketNew (length (sockets lobby_open))]"
    and "messageListElement s' = Some []"
    and "socket s' = Some (length (sockets lobby_open))"
    by blast
  with c n have e: "\<exists>s'. set_state ''chat'' lobby_open = Done s'
         \<and> effects s' = effects lobby_open
              @ [WebSocketClose 0, ReplaceChildren (Chat [] True), WebSocketNew 1]
         \<and> messageListElement s' = Some []
         \<and> socket s' = Some 1"
    by simp
  from a c d e show ?thesis by blast
qed

text \<open>
  C1 as stated fails in two ways. First, a connection that is still connecting is not
  torn down: leaving \<open>in_lobby\<close> for the channel menu sends no close request and keeps
  the reference, entering \<open>den\<close> creates a second connection beside the first, and when
  the first connection opens and delivers a message, the message is logged, stored and
  rendered under \<open>den\<close>. Second, a connection that was open does get its close request
  before the next connection is created, but its listeners stay: when its
  \<^verbatim>\<open>close\<close> event arrives after the user has entered \<open>den\<close>, the handler stores the
  old log under \<open>den\<close> and clears the reference to the new connection.
\<close>

theorem old_connection_outlives_transition:
  "socket in_lobby = Some 0 \<and> ready in_lobby 0 = CONNECTING
   \<and> priv_state switching = Some ''channel-choice''
   \<and> socket switching = Some 0 \<and> ready switching 0 = CONNECTING
   \<and> effects switching = effects in_lobby @ [ReplaceChildren ChannelChoiceMenu]
   \<and> priv_state in_den = Some ''chat''
   \<and> effects in_den = effects in_lobby
        @ [ReplaceChildren ChannelChoiceMenu, ReplaceChildren (Chat [] True), WebSocketNew 1]
   \<and> ready in_den 0 = CONNECTING \<and> ready in_den 1 = CONNECTING
   \<and> channel late_message = ''den''
   \<and> messages late_message = [hello]
   \<and> localStorage late_message ''den'' = Some (Json [hello])
   \<and> messageListElement late_message = Some [UserMessage ''bo'' ''hello'']
   \<and> effects rejoined = effects lobby_chat
        @ [WebSocketClose 0, ReplaceChildren ChannelChoiceMenu,
           ReplaceChildren (Chat [] True), WebSocketNew 1]
   \<and> socket rejoined = Some 1 \<and> channel rejoined = ''den''
   \<and> socket late_close = None \<and> ready late_close 1 = CONNECTING
   \<and> localStorage late_close ''den'' = Some (Json [hello, disconnect_notice])"
proof -
  have a: "socket in_lobby = Some 0 \<and> ready in_lobby 0 = CONNECTING"
    by (simp add: in_lobby_eq ready_def new_chat_def)
  have b: "priv_state switching = Some ''channel-choice''
     \<and> socket switching = Some 0 \<and> ready switching 0 = CONNECTING
     \<and> effects switching = effects in_lobby @ [ReplaceChildren ChannelChoiceMenu]"
    by (simp add: switching_eq in_lobby_eq ready_def new_chat_def)
  have c: "priv_state in_den = Some ''chat''
     \<and> effects in_den = effects in_lobby
        @ [ReplaceChildren ChannelChoiceMenu, ReplaceChildren (Chat [] True), WebSocketNew 1]
     \<and> ready in_den 0 = CONNECTING \<and> ready in_den 1 = CONNECTING"
    by (simp add: in_den_eq in_lobby_eq ready_def new_chat_def)
  have d: "channel late_message = ''den''
     \<and> messages late_message = [hello]
     \<and> localStorage late_message ''den'' = Some (Json [hello])
     \<and> messageListElement late_message = Some [UserMessage ''bo'' ''hello'']"
    by (simp add: late_message_def in_den_eq in_lobby_eq deliver_def ready_def handleOpen_def
        handleMessage_def appendChild_def emit_def new_chat_def Let_def
        createMessageElement_hello)
       (simp add: hello_def)
  have e: "effects rejoined = effects lobby_chat
        @ [WebSocketClose 0, ReplaceChildren ChannelChoiceMenu,
           ReplaceChildren (Chat [] True), WebSocketNew 1]
     \<and> socket rejoined = Some 1 \<and> channel rejoined = ''den''"
    by (simp add: rejoined_eq leaving_eq)
  have f: "socket late_close = None \<and> ready late_close 1 = CONNECTING
     \<and> localStorage late_close ''den'' = Some (Json [hello, disconnect_notice])"
    by (simp add: late_close_def deliver_def ready_def handleClose_def emit_def Let_def
        rejoined_eq leaving_eq lobby_chat_eq)
  from a b c d e f show ?thesis by blast
qed

subsection \<open>Sending\<close>

lemma sends_append: "sends (xs @ ys) = sends xs @ sends ys"
  by (induction xs rule: sends.induct) simp_all

lemma sendMessage_not_open:
  assumes "socket s = None \<or> (\<exists>k. socket s = Some k \<and> ready s k \<noteq> OPEN)"
  shows "sendMessage d s
           = s\<lparr>effects := effects s @ [ConsoleError ''Cannot send message: WebSocket is not open.'']\<rparr>"
  using assms by (auto simp: sendMessage_def emit_def)

lemma sendMessage_open:
  assumes "socket s = Some k" "ready s k = OPEN"
  shows "sendMessage d s
           = s\<lparr>effects := effects s @ [WebSocketSend k
                 \<lparr>ob_type = ''message'', ob_data = d, ob_username = username s,
                  ob_channel = channel s, ob_key = ''eDBE76deU7L0H9mEBgxUKVR0VCnq0XBd''\<rparr>]\<rparr>"
  using assms by (simp add: sendMessage_def emit_def apiKey_def)

text \<open>
  C7. With no connection, or with a connection that is not open, \<^verbatim>\<open>sendMessage\<close>
  only logs the diagnostic: nothing is sent and nothing else changes. With an open
  connection it sends, on that connection, the one payload with the type
  \<^verbatim>\<open>message\<close>, the text, the current user name, the current channel and the fixed
  key, and changes nothing else. (The payload is the object given to
  \<^verbatim>\<open>JSON.stringify\<close>.)
\<close>

theorem send_only_when_open:
  "((socket s = None \<or> (\<exists>j. socket s = Some j \<and> ready s j \<noteq> OPEN)) \<longrightarrow>
      sendMessage d s
        = s\<lparr>effects := effects s
               @ [ConsoleError ''Cannot send message: WebSocket is not open.'']\<rparr>
      \<and> sends (effects (sendMessage d s)) = sends (effects s))
   \<and> (socket s = Some k \<and> ready s k = OPEN \<longrightarrow>
      sendMessage d s
        = s\<lparr>effects := effects s @ [WebSocketSend k
              \<lparr>ob_type = ''message'', ob_data = d, ob_username = username s,
               ob_channel = channel s, ob_key = ''eDBE76deU7L0H9mEBgxUKVR0VCnq0XBd''\<rparr>]\<rparr>
      \<and> sends (effects (sendMessage d s))
        = sends (effects s) @ [(k,
              \<lparr>ob_type = ''message'', ob_data = d, ob_username = username s,
               ob_channel = channel s, ob_key = apiKey\<rparr>)])"
proof (intro conjI impI)
  assume a: "socket s = None \<or> (\<exists>j. socket s = Some j \<and> ready s j \<noteq> OPEN)"
  then show "sendMessage d s
        = s\<lparr>effects := effects s
               @ [ConsoleError ''Cannot send message: WebSocket is not open.'']\<rparr>"
    by (rule sendMessage_not_open)
  then show "sends (effects (sendMessage d s)) = sends (effects s)"
    by (simp add: sends_append)
next
  assume a: "socket s = Some k \<and> ready s k = OPEN"
  then show b: "sendMessage d s
        = s\<lparr>effects := effects s @ [WebSocketSend k
              \<lparr>ob_type = ''message'', ob_data = d, ob_username = username s,
               ob_channel = channel s, ob_key = ''eDBE76deU7L0H9mEBgxUKVR0VCnq0XBd''\<rparr>]\<rparr>"
    by (simp add: sendMessage_open)
  then show "sends (effects (sendMessage d s))
        = sends (effects s) @ [(k,
              \<lparr>ob_type = ''message'', ob_data = d, ob_username = username s,
               ob_channel = channel s, ob_key = apiKey\<rparr>)]"
    by (simp add: sends_append apiKey_def)
qed

text \<open>
  The theorem before a channel is chosen, while the connection is being established, and
  once it is open.
\<close>

theorem send_only_when_open_witness:
  "socket signed_in = None
   \<and> sends (effects (sendMessage ''hi'' signed_in)) = []
   \<and> socket in_lobby = Some 0 \<and> ready in_lobby 0 \<noteq> OPEN
   \<and> sends (effects (sendMessage ''hi'' in_lobby)) = []
   \<and> socket lobby_open = Some 0 \<and> ready lobby_open 0 = OPEN
   \<and> sends (effects (sendMessage ''hi'' lobby_open))
        = [(0, \<lparr>ob_type = ''message'', ob_data = ''hi'', ob_username = Some (Raw ''al''),
                ob_channel = ''lobby'', ob_key = ''eDBE76deU7L0H9mEBgxUKVR0VCnq0XBd''\<rparr>)]"
proof -
  have a: "socket signed_in = None \<and> sends (effects signed_in) = []"
    by (simp add: signed_in_eq new_chat_def)
  have b: "socket in_lobby = Some 0 \<and> ready in_lobby 0 \<noteq> OPEN \<and> sends (effects in_lobby) = []"
    by (simp add: in_lobby_eq ready_def new_chat_def)
  have c: "socket lobby_open = Some 0 \<and> ready lobby_open 0 = OPEN
      \<and> sends (effects lobby_open) = [] \<and> username lobby_open = Some (Raw ''al'')
      \<and> channel lobby_open = ''lobby''"
    by (simp add: lobby_open_eq ready_def new_chat_def username_def)
  from a send_only_when_open [of signed_in "''hi''" 0]
  have "sends (effects (sendMessage ''hi'' signed_in)) = sends (effects signed_in)" by blast
  with a have a': "sends (effects (sendMessage ''hi'' signed_in)) = []" by simp
  from b send_only_when_open [of in_lobby "''hi''" 0]
  have "sends (effects (sendMessage ''hi'' in_lobby)) = sends (effects in_lobby)" by blast
  with b have b': "sends (effects (sendMessage ''hi'' in_lobby)) = []" by simp
  from c send_only_when_open [of lobby_open "''hi''" 0]
  have "sends (effects (sendMessage ''hi'' lobby_open))
        = sends (effects lobby_open) @ [(0,
              \<lparr>ob_type = ''message'', ob_data = ''hi'', ob_username = username lobby_open,
               ob_channel = channel lobby_open, ob_key = apiKey\<rparr>)]" by blast
  with c have c': "sends (effects (sendMessage ''hi'' lobby_open))
        = [(0, \<lparr>ob_type = ''message'', ob_data = ''hi'', ob_username = Some (Raw ''al''),
                ob_channel = ''lobby'', ob_key = ''eDBE76deU7L0H9mEBgxUKVR0VCnq0XBd''\<rparr>)]"
    by (simp add: apiKey_def)
  from a b c a' b' c' show ?thesis by blast
qed

lemma sendMessage_frame:
  "messages (sendMessage d s) = messages s"
  "localStorage (sendMessage d s) = localStorage s"
  "messageListElement (sendMessage d s) = messageListElement s"
  "channel (sendMessage d s) = channel s"
  by (simp_all add: sendMessage_def emit_def split: option.splits)

lemma handleMessageFormSubmit_frame:
  "\<exists>s'. handleMessageFormSubmit f s = Done s'
     \<and> messages s' = messages s \<and> localStorage s' = localStorage s
     \<and> messageListElement s' = messageListElement s"
  by (simp add: handleMessageFormSubmit_def clear_input_def sendMessage_frame
      split: option.splits)

lemma handleMessage_heartbeat:
  "msg_type m = ''heartbeat'' \<Longrightarrow> handleMessage m s = Done s"
  by (simp add: handleMessage_def)

lemma handleMessage_log:
  assumes "msg_type m \<noteq> ''heartbeat''"
  shows "messages (state_of (handleMessage m s)) = messages s @ [m]"
    and "localStorage (state_of (handleMessage m s))
           = (localStorage s)(channel s \<mapsto> Json (messages s @ [m]))"
    and "channel (state_of (handleMessage m s)) = channel s"
  using assms
  by (simp_all add: handleMessage_def appendChild_def emit_def Let_def split: option.splits)

lemma handleMessage_rendered:
  assumes "msg_type m \<noteq> ''heartbeat''" "messageListElement s = Some es"
  shows "\<exists>s'. handleMessage m s = Done s'
           \<and> messages s' = messages s @ [m]
           \<and> localStorage s' = (localStorage s)(channel s \<mapsto> Json (messages s @ [m]))
           \<and> messageListElement s' = Some (es @ [createMessageElement m])"
  using assms
  by (simp add: handleMessage_def appendChild_def emit_def Let_def)

text \<open>
  C10. \<^verbatim>\<open>sendMessage\<close>, and the submit handler of the message form around it, leave the
  message log, \<^verbatim>\<open>localStorage\<close> and the render target as they are. A sent message
  enters the three only when it comes back as an inbound message: the message handler
  then appends it to the log, stores the log under the channel and renders it.
\<close>

theorem send_leaves_log_alone:
  "messages (sendMessage d s) = messages s
   \<and> localStorage (sendMessage d s) = localStorage s
   \<and> messageListElement (sendMessage d s) = messageListElement s
   \<and> (\<exists>s'. handleMessageFormSubmit f s = Done s'
         \<and> messages s' = messages s \<and> localStorage s' = localStorage s
         \<and> messageListElement s' = messageListElement s)
   \<and> (msg_type m \<noteq> ''heartbeat'' \<and> messageListElement s = Some es \<longrightarrow>
        (\<exists>s'. handleMessage m (sendMessage d s) = Done s'
           \<and> messages s' = messages s @ [m]
           \<and> localStorage s' = (localStorage s)(channel s \<mapsto> Json (messages s @ [m]))
           \<and> messageListElement s' = Some (es @ [createMessageElement m])))"
proof -
  have echo: "msg_type m \<noteq> ''heartbeat'' \<and> messageListElement s = Some es \<longrightarrow>
        (\<exists>s'. handleMessage m (sendMessage d s) = Done s'
           \<and> messages s' = messages s @ [m]
           \<and> localStorage s' = (localStorage s)(channel s \<mapsto> Json (messages s @ [m]))
           \<and> messageListElement s' = Some (es @ [createMessageElement m]))"
    using handleMessage_rendered [of m "sendMessage d s" es]
    by (simp add: sendMessage_frame)
  from echo handleMessageFormSubmit_frame [of f s] show ?thesis
    by (simp add: sendMessage_frame)
qed

text \<open>The theorem at \<open>lobby_open\<close>, for the text \<open>hi\<close> and the inbound message \<open>hello\<close>.\<close>

theorem send_leaves_log_alone_witness:
  "messages (sendMessage ''hi'' lobby_open) = []
   \<and> localStorage (sendMessage ''hi'' lobby_open) ''lobby'' = None
   \<and> messageListElement (sendMessage ''hi'' lobby_open) = Some []
   \<and> msg_type hello \<noteq> ''heartbeat''
   \<and> messageListElement lobby_open = Some []
   \<and> (\<exists>s'. handleMessage hello (sendMessage ''hi'' lobby_open) = Done s'
         \<and> messages s' = [hello]
         \<and> localStorage s' ''lobby'' = Some (Json [hello])
         \<and> messageListElement s' = Some [UserMessage ''bo'' ''hello''])"
proof -
  have a: "messageListElement lobby_open = Some [] \<and> messages lobby_open = []
      \<and> channel lobby_open = ''lobby'' \<and> localStorage lobby_open ''lobby'' = None"
    by (simp add: lobby_open_eq new_chat_def)
  have t: "msg_type hello \<noteq> ''heartbeat''"
    by (simp add: hello_def)
  note h = send_leaves_log_alone [of "''hi''" lobby_open "message_form ''hi''" hello "[]"]
  from h a have b: "messages (sendMessage ''hi'' lobby_open) = []
   \<and> localStorage (sendMessage ''hi'' lobby_open) ''lobby'' = None
   \<and> messageListElement (sendMessage ''hi'' lobby_open) = Some []"
    by simp
  from h a t have c: "\<exists>s'. handleMessage hello (sendMessage ''hi'' lobby_open) = Done s'
         \<and> messages s' = [hello]
         \<and> localStorage s' ''lobby'' = Some (Json [hello])
         \<and> messageListElement s' = Some [UserMessage ''bo'' ''hello'']"
    by (auto simp: createMessageElement_hello)
  from a t b c show ?thesis by blast
qed

subsection \<open>Inbound messages\<close>

lemma handleMessage_step:
  "messages (state_of (handleMessage m s))
     = (if msg_type m \<noteq> ''heartbeat'' then messages s @ [m] else messages s)"
  "localStorage (state_of (handleMessage m s))
     = (if msg_type m \<noteq> ''heartbeat''
        then (localStorage s)(channel s \<mapsto> Json (messages s @ [m]))
        else localStorage s)"
  "channel (state_of (handleMessage m s)) = channel s"
  by (simp_all add: handleMessage_def appendChild_def emit_def Let_def split: option.splits)

lemma handleMessage_target:
  "messageListElement s = Some es \<Longrightarrow>
   messageListElement (state_of (handleMessage m s))
     = Some (if msg_type m \<noteq> ''heartbeat'' then es @ [createMessageElement m] else es)"
  by (simp add: handleMessage_def appendChild_def emit_def Let_def)

lemma handleMessages_channel: "channel (handleMessages ms s) = channel s"
  by (induction ms arbitrary: s) (simp_all add: handleMessage_step)

lemma handleMessages_messages:
  "messages (handleMessages ms s)
     = messages s @ filter (\<lambda>m. msg_type m \<noteq> ''heartbeat'') ms"
  by (induction ms arbitrary: s) (simp_all add: handleMessage_step)

lemma handleMessages_storage:
  "localStorage (handleMessages ms s)
     = (if filter (\<lambda>m. msg_type m \<noteq> ''heartbeat'') ms = [] then localStorage s
        else (localStorage s)
               (channel s \<mapsto> Json (messages s @ filter (\<lambda>m. msg_type m \<noteq> ''heartbeat'') ms)))"
proof (induction ms arbitrary: s)
  case Nil
  then show ?case by simp
next
  case (Cons m ms)
  show ?case
  proof (cases "msg_type m = ''heartbeat''")
    case True
    then show ?thesis by (simp add: Cons.IH handleMessage_step)
  next
    case False
    then show ?thesis by (auto simp: Cons.IH handleMessage_step)
  qed
qed

lemma handleMessages_target:
  "messageListElement s = Some es \<Longrightarrow>
   messageListElement (handleMessages ms s)
     = Some (es @ map createMessageElement (filter (\<lambda>m. msg_type m \<noteq> ''heartbeat'') ms))"
proof (induction ms arbitrary: s es)
  case Nil
  then show ?case by simp
next
  case (Cons m ms)
  from Cons.prems
  have "messageListElement (state_of (handleMessage m s))
     = Some (if msg_type m \<noteq> ''heartbeat'' then es @ [createMessageElement m] else es)"
    by (rule handleMessage_target)
  from Cons.IH [OF this] show ?case by simp
qed

text \<open>
  C4, as amended. After any run of inbound messages the log is the old log followed by
  the messages of the run that are no heartbeats, in order; if there was one, this log is
  what is stored under the channel, and otherwise the store is unchanged; and where the
  controller has a render target, its children are the old ones followed by the elements
  of those same messages. For one message: a heartbeat changes nothing; any other message
  is appended to the log and the log is stored under the channel, and where the controller
  has a render target the message is rendered.
\<close>

theorem heartbeats_are_dropped:
  "messages (handleMessages ms s)
     = messages s @ filter (\<lambda>m. msg_type m \<noteq> ''heartbeat'') ms
   \<and> localStorage (handleMessages ms s)
     = (if filter (\<lambda>m. msg_type m \<noteq> ''heartbeat'') ms = [] then localStorage s
        else (localStorage s)
               (channel s \<mapsto> Json (messages s @ filter (\<lambda>m. msg_type m \<noteq> ''heartbeat'') ms)))
   \<and> (messageListElement s = Some es \<longrightarrow>
        messageListElement (handleMessages ms s)
          = Some (es @ map createMessageElement
                         (filter (\<lambda>m. msg_type m \<noteq> ''heartbeat'') ms)))
   \<and> (msg_type m = ''heartbeat'' \<longrightarrow> handleMessage m s = Done s)
   \<and> (msg_type m \<noteq> ''heartbeat'' \<and> messageListElement s = Some es \<longrightarrow>
        (\<exists>s'. handleMessage m s = Done s'
           \<and> messages s' = messages s @ [m]
           \<and> localStorage s' = (localStorage s)(channel s \<mapsto> Json (messages s @ [m]))
           \<and> messageListElement s' = Some (es @ [createMessageElement m])))"
proof -
  have target: "messageListElement s = Some es \<longrightarrow>
        messageListElement (handleMessages ms s)
          = Some (es @ map createMessageElement
                         (filter (\<lambda>m. msg_type m \<noteq> ''heartbeat'') ms))"
    using handleMessages_target [of s es ms] by blast
  have hb: "msg_type m = ''heartbeat'' \<longrightarrow> handleMessage m s = Done s"
    using handleMessage_heartbeat [of m s] by blast
  have one: "msg_type m \<noteq> ''heartbeat'' \<and> messageListElement s = Some es \<longrightarrow>
        (\<exists>s'. handleMessage m s = Done s'
           \<and> messages s' = messages s @ [m]
           \<and> localStorage s' = (localStorage s)(channel s \<mapsto> Json (messages s @ [m]))
           \<and> messageListElement s' = Some (es @ [createMessageElement m]))"
    using handleMessage_rendered [of m s es] by blast
  from handleMessages_messages [of ms s] handleMessages_storage [of ms s] target hb one
  show ?thesis by blast
qed

text \<open>The theorem at \<open>lobby_open\<close> and a run with two heartbeats in it.\<close>

theorem heartbeats_are_dropped_witness:
  "messageListElement lobby_open = Some []
   \<and> messages (handleMessages [greeting, heartbeat, hello, heartbeat] lobby_open)
       = [greeting, hello]
   \<and> localStorage (handleMessages [greeting, heartbeat, hello, heartbeat] lobby_open) ''lobby''
       = Some (Json [greeting, hello])
   \<and> messageListElement (handleMessages [greeting, heartbeat, hello, heartbeat] lobby_open)
       = Some [ServerMessage ''You are connected!'', UserMessage ''bo'' ''hello'']
   \<and> msg_type heartbeat = ''heartbeat''
   \<and> handleMessage heartbeat lobby_open = Done lobby_open
   \<and> msg_type hello \<noteq> ''heartbeat''
   \<and> (\<exists>s'. handleMessage hello lobby_open = Done s'
         \<and> messages s' = [hello]
         \<and> localStorage s' ''lobby'' = Some (Json [hello])
         \<and> messageListElement s' = Some [UserMessage ''bo'' ''hello''])"
proof -
  have a: "messageListElement lobby_open = Some [] \<and> messages lobby_open = []
      \<and> channel lobby_open = ''lobby''"
    by (simp add: lobby_open_eq new_chat_def)
  have t: "msg_type heartbeat = ''heartbeat'' \<and> msg_type hello \<noteq> ''heartbeat''
      \<and> msg_type greeting \<noteq> ''heartbeat''"
    by (simp add: heartbeat_def hello_def greeting_def)
  note h = heartbeats_are_dropped
    [of "[greeting, heartbeat, hello, heartbeat]" lobby_open "[]" heartbeat]
  from h a t
  have b: "messages (handleMessages [greeting, heartbeat, hello, heartbeat] lobby_open)
       = [greeting, hello]"
    by simp
  from h a t
  have c: "localStorage (handleMessages [greeting, heartbeat, hello, heartbeat] lobby_open)
       ''lobby'' = Some (Json [greeting, hello])"
    by simp
  from h a t
  have d: "messageListElement (handleMessages [greeting, heartbeat, hello, heartbeat] lobby_open)
       = Some [ServerMessage ''You are connected!'', UserMessage ''bo'' ''hello'']"
    by (simp add: createMessageElement_hello createMessageElement_greeting)
  from h t have e: "handleMessage heartbeat lobby_open = Done lobby_open"
    by blast
  from heartbeats_are_dropped [of "[]" lobby_open "[]" hello] a t
  have f: "\<exists>s'. handleMessage hello lobby_open = Done s'
         \<and> messages s' = [hello]
         \<and> localStorage s' ''lobby'' = Some (Json [hello])
         \<and> messageListElement s' = Some [UserMessage ''bo'' ''hello'']"
    by (auto simp: createMessageElement_hello)
  from a t b c d e f show ?thesis by blast
qed

text \<open>
  C4 as stated fails where the controller has no render target. In \<open>switching\<close> the
  state is \<^verbatim>\<open>channel-choice\<close> and the first connection, never closed, opens and
  delivers the greeting: the message handler appends it to the log and stores the log
  under \<open>lobby\<close>, then throws a \<^verbatim>\<open>TypeError\<close> at \<^verbatim>\<open>appendChild\<close>; nothing is
  rendered.
\<close>

theorem message_without_render_target:
  "priv_state switching = Some ''channel-choice''
   \<and> messageListElement switching = None
   \<and> ready switching 0 = CONNECTING
   \<and> msg_type greeting \<noteq> ''heartbeat''
   \<and> orphaned = Thrown TypeError (state_of orphaned)
   \<and> messages (state_of orphaned) = [greeting]
   \<and> localStorage (state_of orphaned) ''lobby'' = Some (Json [greeting])
   \<and> messageListElement (state_of orphaned) = None"
proof -
  have a: "priv_state switching = Some ''channel-choice''
     \<and> messageListElement switching = None
     \<and> ready switching 0 = CONNECTING"
    by (simp add: switching_eq in_lobby_eq ready_def new_chat_def)
  have t: "msg_type greeting \<noteq> ''heartbeat''"
    by (simp add: greeting_def)
  have opened: "state_of (deliver no_raw_json 0 Opened switching)
      = switching\<lparr>sockets := [OPEN],
          effects := effects switching
            @ [ConsoleLog ''Connection with the server established.'']\<rparr>"
    by (simp add: deliver_def ready_def handleOpen_def emit_def switching_eq in_lobby_eq
        new_chat_def)
  have b: "orphaned = Thrown TypeError (state_of orphaned)
     \<and> messages (state_of orphaned) = [greeting]
     \<and> localStorage (state_of orphaned) ''lobby'' = Some (Json [greeting])
     \<and> messageListElement (state_of orphaned) = None"
    using t unfolding orphaned_def opened
    by (simp add: deliver_def ready_def handleMessage_def appendChild_def
        Let_def switching_eq in_lobby_eq new_chat_def)
  from a t b show ?thesis by blast
qed

subsection \<open>Form submissions\<close>

lemma not_filled: "\<not> filled v \<longleftrightarrow> v = None \<or> v = Some []"
  by (cases v) simp_all

lemma auth_accepts:
  assumes "formData_get f ''username'' = Some u" "u \<noteq> []"
  shows "\<exists>s'. handleAuthFormSubmit f s = Done s'
           \<and> priv_username s' = Some (Raw u) \<and> priv_state s' = Some ''channel-choice''"
  using assms
  by (simp add: handleAuthFormSubmit_def set_state_channel_choice closeConnection_priv_state
      closeConnection_frame emit_def set_username_def Let_def)

lemma channel_accepts:
  assumes "formData_get f ''channel'' = Some c" "c \<noteq> []"
  shows "\<exists>s'. handleChannelChoiceFormSubmit f s = Done s'
           \<and> channel s' = c \<and> priv_state s' = Some ''chat''"
  using assms
  by (simp add: handleChannelChoiceFormSubmit_def set_state_chat closeConnection_priv_state
      closeConnection_frame connect_def emit_def Let_def)

text \<open>
  C6, as amended. A submission of the user name form, the channel form or the message
  form whose value is missing or is the empty string changes nothing: no transition, no
  user name, no channel, nothing sent. Any non-empty user name, and any non-empty channel,
  is accepted as it is, white space included: the name is assigned and the state becomes
  \<^verbatim>\<open>channel-choice\<close>, or the channel is assigned and the state becomes \<^verbatim>\<open>chat\<close>.
\<close>

theorem empty_submissions_rejected:
  "(form_id f = ''auth-form'' \<and> \<not> filled (formData_get f ''username'') \<longrightarrow>
      handleSubmit f s = Done s)
   \<and> (form_id f = ''channel-form'' \<and> \<not> filled (formData_get f ''channel'') \<longrightarrow>
      handleSubmit f s = Done s)
   \<and> (form_id f = ''message-form'' \<and> \<not> filled (formData_get f ''message'') \<longrightarrow>
      handleSubmit f s = Done s)
   \<and> (form_id f = ''auth-form'' \<and> formData_get f ''username'' = Some u \<and> u \<noteq> [] \<longrightarrow>
      (\<exists>s'. handleSubmit f s = Done s'
         \<and> priv_username s' = Some (Raw u) \<and> priv_state s' = Some ''channel-choice''))
   \<and> (form_id f = ''channel-form'' \<and> formData_get f ''channel'' = Some c \<and> c \<noteq> [] \<longrightarrow>
      (\<exists>s'. handleSubmit f s = Done s'
         \<and> channel s' = c \<and> priv_state s' = Some ''chat''))"
proof -
  have a: "form_id f = ''auth-form'' \<and> \<not> filled (formData_get f ''username'') \<longrightarrow>
      handleSubmit f s = Done s"
    by (auto simp: handleSubmit_def handleAuthFormSubmit_def not_filled)
  have b: "form_id f = ''channel-form'' \<and> \<not> filled (formData_get f ''channel'') \<longrightarrow>
      handleSubmit f s = Done s"
    by (auto simp: handleSubmit_def handleChannelChoiceFormSubmit_def not_filled)
  have c: "form_id f = ''message-form'' \<and> \<not> filled (formData_get f ''message'') \<longrightarrow>
      handleSubmit f s = Done s"
    by (auto simp: handleSubmit_def handleMessageFormSubmit_def not_filled)
  have d: "form_id f = ''auth-form'' \<and> formData_get f ''username'' = Some u \<and> u \<noteq> [] \<longrightarrow>
      (\<exists>s'. handleSubmit f s = Done s'
         \<and> priv_username s' = Some (Raw u) \<and> priv_state s' = Some ''channel-choice'')"
    using auth_accepts [of f u s] by (simp add: handleSubmit_def)
  have e: "form_id f = ''channel-form'' \<and> formData_get f ''channel'' = Some c \<and> c \<noteq> [] \<longrightarrow>
      (\<exists>s'. handleSubmit f s = Done s'
         \<and> channel s' = c \<and> priv_state s' = Some ''chat'')"
    using channel_accepts [of f c s] by (simp add: handleSubmit_def)
  from a b c d e show ?thesis by blast
qed

text \<open>The theorem at the three forms, each once empty, and at a name and a channel.\<close>

theorem empty_submissions_rejected_witness:
  "handleSubmit (auth_form [] True) fresh_chat = Done fresh_chat
   \<and> handleSubmit (channel_form []) signed_in = Done signed_in
   \<and> handleSubmit (message_form []) lobby_open = Done lobby_open
   \<and> (\<exists>s'. handleSubmit (auth_form ''al'' False) fresh_chat = Done s'
         \<and> priv_username s' = Some (Raw ''al'') \<and> priv_state s' = Some ''channel-choice'')
   \<and> (\<exists>s'. handleSubmit (channel_form ''lobby'') signed_in = Done s'
         \<and> channel s' = ''lobby'' \<and> priv_state s' = Some ''chat'')"
proof -
  have a: "form_id (auth_form [] True) = ''auth-form''
      \<and> \<not> filled (formData_get (auth_form [] True) ''username'')"
    by (simp add: auth_form_def formData_get_def)
  have b: "form_id (channel_form []) = ''channel-form''
      \<and> \<not> filled (formData_get (channel_form []) ''channel'')"
    by (simp add: channel_form_def formData_get_def)
  have c: "form_id (message_form []) = ''message-form''
      \<and> \<not> filled (formData_get (message_form []) ''message'')"
    by (simp add: message_form_def formData_get_def)
  have d: "form_id (auth_form ''al'' False) = ''auth-form''
      \<and> formData_get (auth_form ''al'' False) ''username'' = Some ''al'' \<and> ''al'' \<noteq> []"
    by (simp add: auth_form_def formData_get_def)
  have e: "form_id (channel_form ''lobby'') = ''channel-form''
      \<and> formData_get (channel_form ''lobby'') ''channel'' = Some ''lobby'' \<and> ''lobby'' \<noteq> []"
    by (simp add: channel_form_def formData_get_def)
  from a empty_submissions_rejected [of "auth_form [] True" fresh_chat]
  have a': "handleSubmit (auth_form [] True) fresh_chat = Done fresh_chat" by blast
  from b empty_submissions_rejected [of "channel_form []" signed_in]
  have b': "handleSubmit (channel_form []) signed_in = Done signed_in" by blast
  from c empty_submissions_rejected [of "message_form []" lobby_open]
  have c': "handleSubmit (message_form []) lobby_open = Done lobby_open" by blast
  from d empty_submissions_rejected [of "auth_form ''al'' False" fresh_chat "''al''"]
  have d': "\<exists>s'. handleSubmit (auth_form ''al'' False) fresh_chat = Done s'
         \<and> priv_username s' = Some (Raw ''al'') \<and> priv_state s' = Some ''channel-choice''"
    by blast
  from e empty_submissions_rejected [of "channel_form ''lobby''" signed_in _ "''lobby''"]
  have e': "\<exists>s'. handleSubmit (channel_form ''lobby'') signed_in = Done s'
         \<and> channel s' = ''lobby'' \<and> priv_state s' = Some ''chat''"
    by blast
  from a' b' c' d' e' show ?thesis by blast
qed

text \<open>
  C6 as stated fails for values made of white space: the handlers test the value for
  truthiness only, and a string of two spaces is truthy. It becomes the user name, it
  becomes the channel, and as a message it is sent.
\<close>

theorem blank_submissions_accepted:
  "priv_state fresh_chat = Some ''username-choice''
   \<and> priv_username fresh_chat = None
   \<and> priv_state (state_of (handleSubmit (auth_form ''  '' False) fresh_chat))
       = Some ''channel-choice''
   \<and> priv_username (state_of (handleSubmit (auth_form ''  '' False) fresh_chat))
       = Some (Raw ''  '')
   \<and> priv_state (state_of (handleSubmit (channel_form ''  '') signed_in)) = Some ''chat''
   \<and> channel (state_of (handleSubmit (channel_form ''  '') signed_in)) = ''  ''
   \<and> sends (effects lobby_open) = []
   \<and> sends (effects (state_of (handleSubmit (message_form ''  '') lobby_open)))
       = [(0, \<lparr>ob_type = ''message'', ob_data = ''  '', ob_username = Some (Raw ''al''),
               ob_channel = ''lobby'', ob_key = apiKey\<rparr>)]"
proof -
  have a: "priv_state fresh_chat = Some ''username-choice'' \<and> priv_username fresh_chat = None"
    by (simp add: fresh_chat_eq new_chat_def)
  have b: "priv_state (state_of (handleSubmit (auth_form ''  '' False) fresh_chat))
       = Some ''channel-choice''
     \<and> priv_username (state_of (handleSubmit (auth_form ''  '' False) fresh_chat))
       = Some (Raw ''  '')"
    by (simp add: handleSubmit_def auth_form_def handleAuthFormSubmit_def formData_get_def
        set_state_channel_choice closeConnection_priv_state closeConnection_frame emit_def
        set_username_def Let_def)
  have c: "priv_state (state_of (handleSubmit (channel_form ''  '') signed_in)) = Some ''chat''
     \<and> channel (state_of (handleSubmit (channel_form ''  '') signed_in)) = ''  ''"
    by (simp add: handleSubmit_def channel_form_def handleChannelChoiceFormSubmit_def
        formData_get_def set_state_chat closeConnection_priv_state closeConnection_frame
        connect_def emit_def Let_def)
  have d: "sends (effects lobby_open) = []
     \<and> sends (effects (state_of (handleSubmit (message_form ''  '') lobby_open)))
       = [(0, \<lparr>ob_type = ''message'', ob_data = ''  '', ob_username = Some (Raw ''al''),
               ob_channel = ''lobby'', ob_key = apiKey\<rparr>)]"
    by (simp add: handleSubmit_def message_form_def handleMessageFormSubmit_def
        formData_get_def clear_input_def sendMessage_def ready_def emit_def username_def
        lobby_open_eq new_chat_def)
  from a b c d show ?thesis by blast
qed

subsection \<open>Replay after a reconnect\<close>

lemma replay_present:
  "messageListElement s = Some es \<Longrightarrow>
   replay ms s = Done (s\<lparr>messages := messages s @ ms,
                         messageListElement := Some (es @ map createMessageElement ms)\<rparr>)"
proof (induction ms arbitrary: s es)
  case Nil
  then show ?case by simp
next
  case (Cons m ms)
  have "messageListElement
          (s\<lparr>messages := messages s @ [m],
             messageListElement := Some (es @ [createMessageElement m])\<rparr>)
        = Some (es @ [createMessageElement m])"
    by simp
  from Cons.IH [OF this] Cons.prems show ?case
    by (simp add: appendChild_def)
qed

lemma handleOpen_storage: "localStorage (state_of (handleOpen parse s)) = localStorage s"
proof -
  have r: "\<And>ms t. localStorage (state_of (replay ms t)) = localStorage t"
  proof -
    fix ms :: "message list" and t :: chat
    show "localStorage (state_of (replay ms t)) = localStorage t"
      by (induction ms arbitrary: t) (simp_all add: appendChild_def split: option.splits)
  qed
  show ?thesis
    by (simp add: handleOpen_def emit_def Let_def r
        split: option.splits jstext.splits parsed.splits)
qed

lemma handleOpen_raw_array:
  assumes "localStorage s (channel s) = Some (Raw u)" "parse u = MessageArray []"
  shows "handleOpen parse s
           = Done (emit (ConsoleLog ''Connection with the server established.'') s)"
  using assms by (simp add: handleOpen_def emit_def Let_def)

lemma ready_open: "ready s k = OPEN \<longleftrightarrow> k < length (sockets s) \<and> sockets s ! k = OPEN"
  by (simp add: ready_def)

text \<open>
  C3. On an open connection with a render target, after two inbound messages that are no
  heartbeats, the close of the connection, and the user's return to the same channel, the
  handler of the new connection's \<^verbatim>\<open>open\<close> event renders the stored log in order:
  what was in the log, the two messages, the disconnect notice. The log in memory is then
  exactly the stored list, and \<^verbatim>\<open>localStorage\<close> is what the close handler left: the
  replay stores nothing.
\<close>

theorem reconnect_replays_log:
  "socket s = Some k \<and> ready s k = OPEN \<and> messageListElement s = Some es
     \<and> channel s = c \<and> c \<noteq> []
     \<and> msg_type m1 \<noteq> ''heartbeat'' \<and> msg_type m2 \<noteq> ''heartbeat'' \<longrightarrow>
   (\<exists>s'. round_trip parse k m1 m2 c s = Done s'
      \<and> messageListElement s'
          = Some (map createMessageElement (messages s @ [m1, m2, disconnect_notice]))
      \<and> messages s' = messages s @ [m1, m2, disconnect_notice]
      \<and> localStorage s'
          = (localStorage s)(c \<mapsto> Json (messages s @ [m1, m2, disconnect_notice]))
      \<and> localStorage s' = localStorage (state_of (deliver parse k Closed
            (state_of (deliver parse k (Received m2) (state_of (deliver parse k (Received m1) s)))))))"
proof (intro impI)
  assume a: "socket s = Some k \<and> ready s k = OPEN \<and> messageListElement s = Some es
     \<and> channel s = c \<and> c \<noteq> []
     \<and> msg_type m1 \<noteq> ''heartbeat'' \<and> msg_type m2 \<noteq> ''heartbeat''"
  then have k: "k < length (sockets s)" "sockets s ! k = OPEN"
    by (simp_all add: ready_open)
  define s1 where "s1 = s\<lparr>messages := messages s @ [m1],
      localStorage := (localStorage s)(c \<mapsto> Json (messages s @ [m1])),
      messageListElement := Some (es @ [createMessageElement m1]),
      effects := effects s @ [ScrollToBottom]\<rparr>"
  have 1: "deliver parse k (Received m1) s = Done s1"
    using a k by (simp add: deliver_def handleMessage_def appendChild_def emit_def Let_def
        s1_def ready_def)
  define s2 where "s2 = s1\<lparr>messages := messages s @ [m1, m2],
      localStorage := (localStorage s)(c \<mapsto> Json (messages s @ [m1, m2])),
      messageListElement := Some (es @ [createMessageElement m1, createMessageElement m2]),
      effects := effects s @ [ScrollToBottom, ScrollToBottom]\<rparr>"
  have 2: "deliver parse k (Received m2) s1 = Done s2"
    using a k by (simp add: deliver_def handleMessage_def appendChild_def emit_def Let_def
        s1_def s2_def ready_def)
  define s3 where "s3 = s2\<lparr>sockets := (sockets s)[k := CLOSED],
      messages := [], socket := None,
      localStorage := (localStorage s)(c \<mapsto> Json (messages s @ [m1, m2, disconnect_notice])),
      effects := effects s @ [ScrollToBottom, ScrollToBottom, ConsoleLog ''Connection closed.'']\<rparr>"
  have 3: "deliver parse k Closed s2 = Done s3"
    using a k by (simp add: deliver_def handleClose_def emit_def Let_def
        s1_def s2_def s3_def ready_def)
  have s3: "socket s3 = None" "channel s3 = c" "messages s3 = []"
    "localStorage s3 = (localStorage s)(c \<mapsto> Json (messages s @ [m1, m2, disconnect_notice]))"
    "length (sockets s3) = length (sockets s)"
    using a by (simp_all add: s1_def s2_def s3_def)
  obtain s4 where 4: "handleClick (Some ''change-channel'') s3 = Done s4"
    and s4: "s4 = emit (ReplaceChildren ChannelChoiceMenu)
       (s3\<lparr>priv_state := Some ''channel-choice'',
           messageListElement := None, inputFieldElement := None,
           changeChannelDisabled := True, body := ChannelChoiceMenu\<rparr>)"
    using s3 by (simp add: handleClick_def set_state_channel_choice closeConnection_def)
  have s4': "socket s4 = None" "channel s4 = c" "messages s4 = []"
    "localStorage s4 = localStorage s3" "length (sockets s4) = length (sockets s)"
    using s3 by (simp_all add: s4 emit_def)
  obtain s5 where 5: "handleSubmit (channel_form c) s4 = Done s5"
    and s5: "s5 = connect (emit (ReplaceChildren (Chat [] True))
       (s4\<lparr>channel := c, priv_state := Some ''chat'',
           inputFieldElement := None, changeChannelDisabled := False,
           messageListElement := Some [], body := Chat [] True\<rparr>))"
    using a s4' by (simp add: handleSubmit_def channel_form_def handleChannelChoiceFormSubmit_def
        formData_get_def set_state_chat closeConnection_def)
  have n5: "(sockets s4 @ [CONNECTING]) ! length (sockets s) = CONNECTING"
    using s4'(5) by (metis nth_append_length)
  have s5': "channel s5 = c" "messages s5 = []" "messageListElement s5 = Some []"
    "localStorage s5 = localStorage s3" "ready s5 (length (sockets s)) = CONNECTING"
    using s4' n5 by (simp_all add: s5 connect_def emit_def Let_def ready_def)
  obtain s6 where 6: "deliver parse (length (sockets s)) Opened s5 = Done s6"
    and s6: "messageListElement s6
          = Some (map createMessageElement (messages s @ [m1, m2, disconnect_notice]))"
      "messages s6 = messages s @ [m1, m2, disconnect_notice]"
      "localStorage s6 = localStorage s3"
    using s5' s3 by (simp add: deliver_def handleOpen_def emit_def Let_def replay_present)
  have "round_trip parse k m1 m2 c s = Done s6"
    by (simp add: round_trip_def 1 2 3 4 5 6)
  with s6 s3 1 2 3 show "\<exists>s'. round_trip parse k m1 m2 c s = Done s'
      \<and> messageListElement s'
          = Some (map createMessageElement (messages s @ [m1, m2, disconnect_notice]))
      \<and> messages s' = messages s @ [m1, m2, disconnect_notice]
      \<and> localStorage s'
          = (localStorage s)(c \<mapsto> Json (messages s @ [m1, m2, disconnect_notice]))
      \<and> localStorage s' = localStorage (state_of (deliver parse k Closed
            (state_of (deliver parse k (Received m2) (state_of (deliver parse k (Received m1) s))))))"
    by simp
qed

text \<open>The theorem at \<open>lobby_open\<close>, whose log is empty, with the messages \<open>hello\<close> and \<open>greeting\<close>.\<close>

theorem reconnect_replays_log_witness:
  "socket lobby_open = Some 0 \<and> ready lobby_open 0 = OPEN
   \<and> messageListElement lobby_open = Some [] \<and> channel lobby_open = ''lobby''
   \<and> messages lobby_open = []
   \<and> msg_type hello \<noteq> ''heartbeat'' \<and> msg_type greeting \<noteq> ''heartbeat''
   \<and> (\<exists>s'. round_trip no_raw_json 0 hello greeting ''lobby'' lobby_open = Done s'
         \<and> messageListElement s'
             = Some [UserMessage ''bo'' ''hello'', ServerMessage ''You are connected!'',
                     ServerMessage ''You are disconnected!'']
         \<and> messages s' = [hello, greeting, disconnect_notice]
         \<and> localStorage s' ''lobby'' = Some (Json [hello, greeting, disconnect_notice]))"
proof -
  have a: "socket lobby_open = Some 0 \<and> ready lobby_open 0 = OPEN
      \<and> messageListElement lobby_open = Some [] \<and> channel lobby_open = ''lobby''
      \<and> messages lobby_open = []"
    by (simp add: lobby_open_eq ready_def new_chat_def)
  have t: "msg_type hello \<noteq> ''heartbeat'' \<and> msg_type greeting \<noteq> ''heartbeat''"
    by (simp add: hello_def greeting_def)
  from a t reconnect_replays_log [of lobby_open 0 "[]" "''lobby''" hello greeting no_raw_json]
  obtain s' where "round_trip no_raw_json 0 hello greeting ''lobby'' lobby_open = Done s'"
    and "messageListElement s'
          = Some (map createMessageElement (messages lobby_open @ [hello, greeting, disconnect_notice]))"
    and "messages s' = messages lobby_open @ [hello, greeting, disconnect_notice]"
    and "localStorage s'
          = (localStorage lobby_open)(''lobby'' \<mapsto>
               Json (messages lobby_open @ [hello, greeting, disconnect_notice]))"
    by auto
  with a have "\<exists>s'. round_trip no_raw_json 0 hello greeting ''lobby'' lobby_open = Done s'
         \<and> messageListElement s'
             = Some [UserMessage ''bo'' ''hello'', ServerMessage ''You are connected!'',
                     ServerMessage ''You are disconnected!'']
         \<and> messages s' = [hello, greeting, disconnect_notice]
         \<and> localStorage s' ''lobby'' = Some (Json [hello, greeting, disconnect_notice])"
    by (simp add: createMessageElement_hello createMessageElement_greeting
        createMessageElement_notice)
  with a t show ?thesis by blast
qed

end
